theory Spec2Isabelle
  imports Complex_Main "HOL-Library.Log_Nat"
begin

section \<open>Settlement computation of the account entry screen\<close>

text \<open>
  The repository holds three revisions of the player's account entry screen:
  \<^item> \<open>src/pages/player/AccountEntry.tsx\<close>: profit/loss only (suffix \<open>_v1\<close> below);
  \<^item> the first document of \<open>unnamed/part_002\<close>: adds tax, referral and the status
    derivation (suffix \<open>_v2\<close>);
  \<^item> the second document of \<open>unnamed/part_002\<close>: adds the broker and the account's promo
    amount (no suffix: the names of the source).

  A JavaScript number is modelled as an exact rational: the rounding of IEEE doubles, NaN and
  the infinities are outside this model, except where a property turns on the rounding; the
  computation is then modelled with binary64 rounding (see the computation in binary64). A
  numeric field that may be \<open>undefined\<close>, \<open>null\<close> or the empty string of a cleared form
  input is a \<open>rat option\<close>, \<open>None\<close> being all of those.
\<close>

subsection \<open>Truthiness\<close>

text \<open>\<open>x || 0\<close> on a number: a falsy \<open>x\<close> (absent, or \<open>0\<close> itself) gives \<open>0\<close>.\<close>

definition or_zero :: "rat option \<Rightarrow> rat" where
  "or_zero x = (case x of None \<Rightarrow> 0 | Some v \<Rightarrow> v)"

text \<open>
  A number used as a condition (\<open>x ? a : b\<close>) is written out where it occurs: absent and
  \<open>0\<close> are falsy, every other number, a negative one too, is truthy.
\<close>

text \<open>A string used as a condition: absent and the empty string are falsy.\<close>

definition truthy_str :: "string option \<Rightarrow> bool" where
  "truthy_str x = (case x of None \<Rightarrow> False | Some s \<Rightarrow> s \<noteq> [])"

subsection \<open>Data model\<close>

datatype account_type = Pph | Legal

datatype account_status = Active | Inactive | Unused

datatype commission_type = Percentage | Flat | Both

text \<open>
  The \<open>Entry\<close> interface, without the fields that only the form displays (settled flags,
  notes, compliance review, payments). The \<open>_v1\<close> and \<open>_v2\<close> revisions have no
  \<open>brokerAmount\<close>; their functions never touch it.
\<close>

record Entry =
  entry_id :: "string option"
  accountId :: string
  playerUid :: string
  date :: string
  startingBalance :: "rat option"
  endingBalance :: "rat option"
  refillAmount :: "rat option"
  withdrawal :: "rat option"
  profitLoss :: rat
  clickerAmount :: rat
  accHolderAmount :: rat
  brokerAmount :: rat
  companyAmount :: rat
  taxableAmount :: rat
  referralAmount :: rat
  accountStatus :: account_status

text \<open>The \<open>Account\<close> held in the component state (names of people left out).\<close>

record Account =
  acc_type :: account_type
  agentId :: string
  brokerId :: "string option"
  status :: account_status
  depositAmount :: "rat option"
  referralPercentage :: "rat option"
  promoAmount :: "rat option"

text \<open>\<open>UserData\<close> of the authentication context.\<close>

record UserData =
  uid :: string
  percentage :: "rat option"

text \<open>The data of an \<open>agents\<close> document, as far as the computation reads it.\<close>

record AgentData =
  commissionPercentage :: "rat option"
  flatCommission :: "rat option"

text \<open>The \<open>Broker\<close> interface; its two commission fields carry the prefix \<open>broker_\<close>.\<close>

record Broker =
  commissionType :: commission_type
  broker_commissionPercentage :: "rat option"
  broker_flatCommission :: "rat option"

text \<open>
  The outcome of a \<open>getDoc\<close>: the promise rejects (\<open>Inl\<close>), or it resolves to a snapshot
  whose data is absent (\<open>Inr None\<close>, the document does not exist) or present.
\<close>

datatype fetch_error = FetchError

type_synonym 'a fetched = "fetch_error + 'a option"

subsection \<open>The settlement computation (second document of part_002)\<close>

text \<open>
  \<open>calculateAmounts\<close> reads the current entry and writes the computed fields back into it.
  The result is \<open>Inr\<close> the new entry, or \<open>Inl\<close> when the lookup of the agent rejects: the
  \<open>catch\<close> logs the error and the entry stays as it was. Without an account or without user
  data only \<open>profitLoss\<close> is written.
\<close>

definition calculateAmounts ::
  "Account option \<Rightarrow> UserData option \<Rightarrow> Broker option \<Rightarrow> rat \<Rightarrow> AgentData fetched
     \<Rightarrow> Entry \<Rightarrow> fetch_error + Entry" where
  "calculateAmounts account userData broker taxRate agent currentEntry =
    (let effectiveStarting = or_zero (startingBalance currentEntry)
           + (case account of None \<Rightarrow> 0 | Some a \<Rightarrow> or_zero (promoAmount a));
         pl = or_zero (endingBalance currentEntry) - effectiveStarting
           + or_zero (withdrawal currentEntry) - or_zero (refillAmount currentEntry)
     in case account of
          None \<Rightarrow> Inr (currentEntry\<lparr>profitLoss := pl\<rparr>)
        | Some acc \<Rightarrow>
           (case userData of
              None \<Rightarrow> Inr (currentEntry\<lparr>profitLoss := pl\<rparr>)
            | Some u \<Rightarrow>
               (let clicker = pl * or_zero (percentage u) / 100
                in case agent of
                     Inl err \<Rightarrow> Inl err
                   | Inr agentData \<Rightarrow>
                      (let accHolder = (case agentData of
                               None \<Rightarrow> 0
                             | Some ad \<Rightarrow> pl * or_zero (commissionPercentage ad) / 100
                                          + or_zero (flatCommission ad));
                           brokerAmt = (case broker of
                               None \<Rightarrow> 0
                             | Some b \<Rightarrow>
                                if truthy_str (brokerId acc) then
                                  (case commissionType b of
                                     Percentage \<Rightarrow>
                                       pl * or_zero (broker_commissionPercentage b) / 100
                                   | Flat \<Rightarrow> or_zero (broker_flatCommission b)
                                   | Both \<Rightarrow>
                                       pl * or_zero (broker_commissionPercentage b) / 100
                                       + or_zero (broker_flatCommission b))
                                else 0);
                           taxAmount = pl * taxRate / 100;
                           referral = (case referralPercentage acc of
                                       None \<Rightarrow> 0
                                     | Some rp \<Rightarrow> if rp \<noteq> 0 then pl * rp / 100 else 0);
                           company = pl - clicker - accHolder - brokerAmt - taxAmount - referral
                       in Inr (currentEntry\<lparr>profitLoss := pl, clickerAmount := clicker,
                                 accHolderAmount := accHolder, brokerAmount := brokerAmt,
                                 companyAmount := company, taxableAmount := taxAmount,
                                 referralAmount := referral\<rparr>)))))"

text \<open>
  \<open>calculateEditingAmounts\<close>: the same computation on the entry being edited. Its effect
  returns at once when there is no entry being edited, no account or no user data.
\<close>

definition calculateEditingAmounts ::
  "Account option \<Rightarrow> UserData option \<Rightarrow> Broker option \<Rightarrow> rat \<Rightarrow> AgentData fetched
     \<Rightarrow> Entry option \<Rightarrow> fetch_error + Entry option" where
  "calculateEditingAmounts account userData broker taxRate agent editingEntry =
    (case editingEntry of
       None \<Rightarrow> Inr None
     | Some ee \<Rightarrow>
    (case account of
       None \<Rightarrow> Inr (Some ee)
     | Some acc \<Rightarrow>
    (case userData of
       None \<Rightarrow> Inr (Some ee)
     | Some u \<Rightarrow>
        (let effectiveStarting = or_zero (startingBalance ee) + or_zero (promoAmount acc);
             pl = or_zero (endingBalance ee) - effectiveStarting
               + or_zero (withdrawal ee) - or_zero (refillAmount ee);
             clicker = pl * or_zero (percentage u) / 100
         in case agent of
              Inl err \<Rightarrow> Inl err
            | Inr agentData \<Rightarrow>
               (let accHolder = (case agentData of
                        None \<Rightarrow> 0
                      | Some ad \<Rightarrow> pl * or_zero (commissionPercentage ad) / 100
                                   + or_zero (flatCommission ad));
                    brokerAmt = (case broker of
                        None \<Rightarrow> 0
                      | Some b \<Rightarrow>
                         if truthy_str (brokerId acc) then
                           (case commissionType b of
                              Percentage \<Rightarrow>
                                pl * or_zero (broker_commissionPercentage b) / 100
                            | Flat \<Rightarrow> or_zero (broker_flatCommission b)
                            | Both \<Rightarrow>
                                pl * or_zero (broker_commissionPercentage b) / 100
                                + or_zero (broker_flatCommission b))
                         else 0);
                    taxAmount = pl * taxRate / 100;
                    referral = (case referralPercentage acc of
                                None \<Rightarrow> 0
                              | Some rp \<Rightarrow> if rp \<noteq> 0 then pl * rp / 100 else 0);
                    company = pl - clicker - accHolder - brokerAmt - taxAmount - referral
                in Inr (Some (ee\<lparr>profitLoss := pl, clickerAmount := clicker,
                          accHolderAmount := accHolder, brokerAmount := brokerAmt,
                          companyAmount := company, taxableAmount := taxAmount,
                          referralAmount := referral\<rparr>)))))))"

subsection \<open>The earlier revisions of the computation\<close>

text \<open>
  \<open>AccountEntry.tsx\<close>: two effects without a name recompute \<open>profitLoss\<close> from the four
  balances of the current entry and of the entry being edited, and store it when it differs.
  The \<open>Account\<close> of this revision has no promo amount.
\<close>

definition profitLoss_effect_v1 :: "Entry \<Rightarrow> Entry" where
  "profitLoss_effect_v1 currentEntry =
    (let pl = or_zero (endingBalance currentEntry) - or_zero (startingBalance currentEntry)
           + or_zero (withdrawal currentEntry) - or_zero (refillAmount currentEntry)
     in if pl \<noteq> profitLoss currentEntry then currentEntry\<lparr>profitLoss := pl\<rparr>
        else currentEntry)"

definition editing_profitLoss_effect_v1 :: "Entry option \<Rightarrow> Entry option" where
  "editing_profitLoss_effect_v1 editingEntry =
    (case editingEntry of
       None \<Rightarrow> None
     | Some ee \<Rightarrow>
        (let pl = or_zero (endingBalance ee) - or_zero (startingBalance ee)
               + or_zero (withdrawal ee) - or_zero (refillAmount ee)
         in if pl \<noteq> profitLoss ee then Some (ee\<lparr>profitLoss := pl\<rparr>) else Some ee))"

text \<open>
  First document of part_002: \<open>calculateAmounts\<close> without broker and promo amount. The
  \<open>Entry\<close> of this revision has no \<open>brokerAmount\<close>, so that field is left alone.
\<close>

definition calculateAmounts_v2 ::
  "Account option \<Rightarrow> UserData option \<Rightarrow> rat \<Rightarrow> AgentData fetched
     \<Rightarrow> Entry \<Rightarrow> fetch_error + Entry" where
  "calculateAmounts_v2 account userData taxRate agent currentEntry =
    (let pl = or_zero (endingBalance currentEntry) - or_zero (startingBalance currentEntry)
           + or_zero (withdrawal currentEntry) - or_zero (refillAmount currentEntry)
     in case account of
          None \<Rightarrow> Inr (currentEntry\<lparr>profitLoss := pl\<rparr>)
        | Some acc \<Rightarrow>
           (case userData of
              None \<Rightarrow> Inr (currentEntry\<lparr>profitLoss := pl\<rparr>)
            | Some u \<Rightarrow>
               (let clicker = pl * or_zero (percentage u) / 100
                in case agent of
                     Inl err \<Rightarrow> Inl err
                   | Inr agentData \<Rightarrow>
                      (let accHolder = (case agentData of
                               None \<Rightarrow> 0
                             | Some ad \<Rightarrow> pl * or_zero (commissionPercentage ad) / 100
                                          + or_zero (flatCommission ad));
                           taxAmount = pl * taxRate / 100;
                           referral = (case referralPercentage acc of
                                       None \<Rightarrow> 0
                                     | Some rp \<Rightarrow> if rp \<noteq> 0 then pl * rp / 100 else 0);
                           company = pl - clicker - accHolder - taxAmount - referral
                       in Inr (currentEntry\<lparr>profitLoss := pl, clickerAmount := clicker,
                                 accHolderAmount := accHolder, companyAmount := company,
                                 taxableAmount := taxAmount, referralAmount := referral\<rparr>)))))"

text \<open>
  The same document declares the effect for the editing mode twice. The first one
  (lines 162 to 219) reads the tax rate of the component state.
\<close>

definition calculateEditingAmounts_v2 ::
  "Account option \<Rightarrow> UserData option \<Rightarrow> rat \<Rightarrow> AgentData fetched
     \<Rightarrow> Entry option \<Rightarrow> fetch_error + Entry option" where
  "calculateEditingAmounts_v2 account userData taxRate agent editingEntry =
    (case editingEntry of
       None \<Rightarrow> Inr None
     | Some ee \<Rightarrow>
    (case account of
       None \<Rightarrow> Inr (Some ee)
     | Some acc \<Rightarrow>
    (case userData of
       None \<Rightarrow> Inr (Some ee)
     | Some u \<Rightarrow>
        (let pl = or_zero (endingBalance ee) - or_zero (startingBalance ee)
               + or_zero (withdrawal ee) - or_zero (refillAmount ee);
             clicker = pl * or_zero (percentage u) / 100
         in case agent of
              Inl err \<Rightarrow> Inl err
            | Inr agentData \<Rightarrow>
               (let accHolder = (case agentData of
                        None \<Rightarrow> 0
                      | Some ad \<Rightarrow> pl * or_zero (commissionPercentage ad) / 100
                                   + or_zero (flatCommission ad));
                    taxAmount = pl * taxRate / 100;
                    referral = (case referralPercentage acc of
                                None \<Rightarrow> 0
                              | Some rp \<Rightarrow> if rp \<noteq> 0 then pl * rp / 100 else 0);
                    company = pl - clicker - accHolder - taxAmount - referral
                in Inr (Some (ee\<lparr>profitLoss := pl, clickerAmount := clicker,
                          accHolderAmount := accHolder, companyAmount := company,
                          taxableAmount := taxAmount, referralAmount := referral\<rparr>)))))))"

text \<open>
  The second one (lines 221 to 279) takes no tax rate: \<open>taxPercentage\<close> is the constant
  \<open>10\<close> in its body.
\<close>

definition calculateEditingAmounts_v2_second ::
  "Account option \<Rightarrow> UserData option \<Rightarrow> AgentData fetched
     \<Rightarrow> Entry option \<Rightarrow> fetch_error + Entry option" where
  "calculateEditingAmounts_v2_second account userData agent editingEntry =
    (case editingEntry of
       None \<Rightarrow> Inr None
     | Some ee \<Rightarrow>
    (case account of
       None \<Rightarrow> Inr (Some ee)
     | Some acc \<Rightarrow>
    (case userData of
       None \<Rightarrow> Inr (Some ee)
     | Some u \<Rightarrow>
        (let pl = or_zero (endingBalance ee) - or_zero (startingBalance ee)
               + or_zero (withdrawal ee) - or_zero (refillAmount ee);
             clicker = pl * or_zero (percentage u) / 100
         in case agent of
              Inl err \<Rightarrow> Inl err
            | Inr agentData \<Rightarrow>
               (let accHolder = (case agentData of
                        None \<Rightarrow> 0
                      | Some ad \<Rightarrow> pl * or_zero (commissionPercentage ad) / 100
                                   + or_zero (flatCommission ad));
                    taxPercentage = 10;
                    taxAmount = pl * taxPercentage / 100;
                    referral = (case referralPercentage acc of
                                None \<Rightarrow> 0
                              | Some rp \<Rightarrow> if rp \<noteq> 0 then pl * rp / 100 else 0);
                    company = pl - clicker - accHolder - taxAmount - referral
                in Inr (Some (ee\<lparr>profitLoss := pl, clickerAmount := clicker,
                          accHolderAmount := accHolder, companyAmount := company,
                          taxableAmount := taxAmount, referralAmount := referral\<rparr>)))))))"

text \<open>
  Both effects have the same dependencies apart from the tax rate, so a change of a balance
  of the entry being edited runs the first and then the second, each from the entry of that
  render. Each writes every computed field; with the two lookups of the agent resolving in the
  order they were issued, the write of the second effect is the one that stays.
\<close>

definition editing_effects_v2 ::
  "Account option \<Rightarrow> UserData option \<Rightarrow> rat \<Rightarrow> AgentData fetched
     \<Rightarrow> Entry option \<Rightarrow> Entry option" where
  "editing_effects_v2 account userData taxRate agent editingEntry =
    (let after_first = (case calculateEditingAmounts_v2 account userData taxRate agent editingEntry of
            Inl err \<Rightarrow> editingEntry
          | Inr e1 \<Rightarrow> e1)
     in case calculateEditingAmounts_v2_second account userData agent editingEntry of
          Inl err \<Rightarrow> after_first
        | Inr None \<Rightarrow> after_first
        | Inr (Some e2) \<Rightarrow>
           (case after_first of
              None \<Rightarrow> None
            | Some prev \<Rightarrow> Some (prev\<lparr>profitLoss := profitLoss e2,
                  clickerAmount := clickerAmount e2, accHolderAmount := accHolderAmount e2,
                  companyAmount := companyAmount e2, taxableAmount := taxableAmount e2,
                  referralAmount := referralAmount e2\<rparr>)))"

subsection \<open>The tax rate\<close>

text \<open>
  The component state \<open>taxRate\<close> starts at \<open>10\<close>. \<open>fetchTaxRate\<close> reads the document
  \<open>settings/taxRate\<close> and stores its \<open>value\<close> when the document exists; a missing document
  and a rejected read leave the state as it is. The document is written by the dashboard's
  \<open>updateTaxRate\<close>, always with a numeric \<open>value\<close>, so its data is modelled as that number.
\<close>

definition initial_taxRate :: rat where
  "initial_taxRate = 10"

definition fetchTaxRate :: "rat fetched \<Rightarrow> rat \<Rightarrow> rat" where
  "fetchTaxRate taxDoc taxRate =
    (case taxDoc of
       Inl err \<Rightarrow> taxRate
     | Inr None \<Rightarrow> taxRate
     | Inr (Some v) \<Rightarrow> v)"

text \<open>
  The dashboard keeps the rate in \<open>stats.taxRate\<close> and in \<open>newTaxRate\<close>, both starting at
  \<open>10\<close>; its \<open>fetchTaxRate\<close> sets both from the document. \<open>fetchStats\<close>, which writes
  \<open>stats\<close> back with the \<open>taxRate\<close> of the render it was started in, is not modelled: it
  can differ from this only after a read that found a rate.
\<close>

record DashboardTax =
  stats_taxRate :: rat
  newTaxRate :: rat

definition initial_DashboardTax :: DashboardTax where
  "initial_DashboardTax = \<lparr>stats_taxRate = 10, newTaxRate = 10\<rparr>"

definition Dashboard_fetchTaxRate :: "rat fetched \<Rightarrow> DashboardTax \<Rightarrow> DashboardTax" where
  "Dashboard_fetchTaxRate taxDoc s =
    (case taxDoc of
       Inl err \<Rightarrow> s
     | Inr None \<Rightarrow> s
     | Inr (Some rate) \<Rightarrow> s\<lparr>stats_taxRate := rate, newTaxRate := rate\<rparr>)"

text \<open>The tax rate after a series of reads, oldest first.\<close>

definition taxRate_after :: "rat fetched list \<Rightarrow> rat" where
  "taxRate_after taxDocs = foldl (\<lambda>t d. fetchTaxRate d t) initial_taxRate taxDocs"

definition DashboardTax_after :: "rat fetched list \<Rightarrow> DashboardTax" where
  "DashboardTax_after taxDocs = foldl (\<lambda>s d. Dashboard_fetchTaxRate d s) initial_DashboardTax taxDocs"

text \<open>A read that yields no rate: the promise rejected or the document does not exist.\<close>

definition unreadable :: "rat fetched \<Rightarrow> bool" where
  "unreadable taxDoc = (case taxDoc of Inl err \<Rightarrow> True | Inr None \<Rightarrow> True | Inr (Some v) \<Rightarrow> False)"

subsection \<open>Account status and the entry form\<close>

text \<open>
  The data of the \<open>accounts\<close> document of the account on screen; every field but the agent
  may be missing.
\<close>

record AccountData =
  d_type :: "account_type option"
  d_agentId :: string
  d_brokerId :: "string option"
  d_status :: "account_status option"
  d_depositAmount :: "rat option"
  d_referralPercentage :: "rat option"
  d_promoAmount :: "rat option"

text \<open>
  The part of the store the screen works on: the document of the account, the document of
  the account's broker, and the \<open>entries\<close> collection. Reads and writes of this part are
  modelled as succeeding; a query without \<open>orderBy\<close> returns its documents in the order
  of \<open>entryDocs\<close>.
\<close>

record Db =
  accountDoc :: "AccountData option"
  brokerDoc :: "Broker option"
  entryDocs :: "Entry list"

text \<open>The component state.\<close>

record View =
  v_account :: "Account option"
  v_broker :: "Broker option"
  v_entries :: "Entry list"
  v_currentEntry :: Entry
  v_loading :: bool

text \<open>The query on \<open>entries\<close>: the entries of this account made by this player.\<close>

definition entriesQuery :: "string \<Rightarrow> string \<Rightarrow> Db \<Rightarrow> Entry list" where
  "entriesQuery aid puid db =
     filter (\<lambda>e. accountId e = aid \<and> playerUid e = puid) (entryDocs db)"

text \<open>
  \<open>b.date > a.date\<close> on strings: JavaScript compares code unit by code unit; a proper
  prefix is the smaller string.
\<close>

fun str_gt :: "string \<Rightarrow> string \<Rightarrow> bool" where
  "str_gt [] ys = False"
| "str_gt (x # xs) [] = True"
| "str_gt (x # xs) (y # ys) =
     (if (of_char y :: nat) < of_char x then True
      else if x = y then str_gt xs ys else False)"

text \<open>
  The head of \<open>[...entriesData].sort((a, b) => (b.date > a.date ? 1 : -1))\<close>: an entry of
  the latest date. The comparator never answers \<open>0\<close>, so the place of entries of one date
  is the engine's: the insertion sort of V8 puts each of them before the earlier ones, and
  the head is the last entry of the latest date in the list.
\<close>

fun latest_entry :: "Entry list \<Rightarrow> Entry option" where
  "latest_entry [] = None"
| "latest_entry (e # es) =
     (case latest_entry es of
        None \<Rightarrow> Some e
      | Some m \<Rightarrow> if str_gt (date e) (date m) then Some e else Some m)"

text \<open>
  \<open>orderBy('date', 'desc')\<close> of the query of \<open>AccountEntry.tsx\<close>: the entries by
  falling date. Entries of one date keep the order of the store (the store orders them by
  document name, which is not modelled).
\<close>

fun insert_by_date_desc :: "Entry \<Rightarrow> Entry list \<Rightarrow> Entry list" where
  "insert_by_date_desc e [] = [e]"
| "insert_by_date_desc e (x # xs) =
     (if str_gt (date x) (date e) then x # insert_by_date_desc e xs else e # x # xs)"

fun orderBy_date_desc :: "Entry list \<Rightarrow> Entry list" where
  "orderBy_date_desc [] = []"
| "orderBy_date_desc (e # es) = insert_by_date_desc e (orderBy_date_desc es)"

text \<open>
  The status derived by \<open>fetchAccountData\<close> from the stored status and the number of
  entries of the query (the same lines in both documents of part_002).
\<close>

definition derived_status :: "account_status option \<Rightarrow> nat \<Rightarrow> account_status" where
  "derived_status stored n =
    (let status0 = (case stored of None \<Rightarrow> Unused | Some s \<Rightarrow> s)
     in if n > 0 then Active
        else if status0 \<noteq> Inactive then Unused
        else status0)"

text \<open>
  \<open>fetchAccountData\<close> of the second document of part_002, for the account \<open>aid\<close>, the
  player \<open>puid\<close> and the date \<open>today\<close>. Nothing but \<open>loading\<close> changes when there is no
  account id or no document of the account.
\<close>

definition fetchAccountData :: "string \<Rightarrow> string \<Rightarrow> string \<Rightarrow> Db \<Rightarrow> View \<Rightarrow> View" where
  "fetchAccountData aid puid today db v =
    (if aid = [] then v\<lparr>v_loading := False\<rparr>
     else case accountDoc db of
       None \<Rightarrow> v\<lparr>v_loading := False\<rparr>
     | Some accountData \<Rightarrow>
        (let v1 = (if truthy_str (d_brokerId accountData)
                   then (case brokerDoc db of None \<Rightarrow> v | Some b \<Rightarrow> v\<lparr>v_broker := Some b\<rparr>)
                   else v);
             entriesData = entriesQuery aid puid db;
             st = derived_status (d_status accountData) (length entriesData);
             acc = \<lparr>acc_type = (case d_type accountData of None \<Rightarrow> Pph | Some t \<Rightarrow> t),
                    agentId = d_agentId accountData,
                    brokerId = d_brokerId accountData,
                    status = st,
                    depositAmount = d_depositAmount accountData,
                    referralPercentage = d_referralPercentage accountData,
                    promoAmount = d_promoAmount accountData\<rparr>;
             v2 = v1\<lparr>v_account := Some acc, v_entries := entriesData\<rparr>
         in case find (\<lambda>e. date e = today) entriesData of
              Some todayEntry \<Rightarrow> v2\<lparr>v_currentEntry := todayEntry, v_loading := False\<rparr>
            | None \<Rightarrow>
               (let prefillStarting =
                      (if (case d_type accountData of None \<Rightarrow> Pph | Some t \<Rightarrow> t) = Pph
                       then (case latest_entry entriesData of
                               None \<Rightarrow> 0
                             | Some e \<Rightarrow> or_zero (endingBalance e))
                       else 0)
                in v2\<lparr>v_currentEntry := (v_currentEntry v2)
                         \<lparr>accountStatus := (if st = Unused then Active else st),
                          startingBalance := Some (if d_type accountData = Some Legal
                             then or_zero (d_depositAmount accountData)
                             else prefillStarting)\<rparr>,
                       v_loading := False\<rparr>)))"

text \<open>
  \<open>fetchAccountData\<close> of the first document of part_002: no broker, and the starting
  balance of a pph account is \<open>0\<close>.
\<close>

definition fetchAccountData_v2 :: "string \<Rightarrow> string \<Rightarrow> string \<Rightarrow> Db \<Rightarrow> View \<Rightarrow> View" where
  "fetchAccountData_v2 aid puid today db v =
    (if aid = [] then v\<lparr>v_loading := False\<rparr>
     else case accountDoc db of
       None \<Rightarrow> v\<lparr>v_loading := False\<rparr>
     | Some accountData \<Rightarrow>
        (let entriesData = entriesQuery aid puid db;
             st = derived_status (d_status accountData) (length entriesData);
             acc = \<lparr>acc_type = (case d_type accountData of None \<Rightarrow> Pph | Some t \<Rightarrow> t),
                    agentId = d_agentId accountData,
                    brokerId = None,
                    status = st,
                    depositAmount = d_depositAmount accountData,
                    referralPercentage = d_referralPercentage accountData,
                    promoAmount = None\<rparr>;
             v2 = v\<lparr>v_account := Some acc, v_entries := entriesData\<rparr>
         in case find (\<lambda>e. date e = today) entriesData of
              Some todayEntry \<Rightarrow> v2\<lparr>v_currentEntry := todayEntry, v_loading := False\<rparr>
            | None \<Rightarrow>
               v2\<lparr>v_currentEntry := (v_currentEntry v2)
                       \<lparr>accountStatus := (if st = Unused then Active else st),
                        startingBalance := Some (if d_type accountData = Some Legal
                           then or_zero (d_depositAmount accountData) else 0)\<rparr>,
                    v_loading := False\<rparr>))"

text \<open>
  \<open>fetchAccountData\<close> of \<open>AccountEntry.tsx\<close>: the status is the stored one, \<open>active\<close>
  when missing; nothing is derived from the entries.
\<close>

definition fetchAccountData_v1 :: "string \<Rightarrow> string \<Rightarrow> string \<Rightarrow> Db \<Rightarrow> View \<Rightarrow> View" where
  "fetchAccountData_v1 aid puid today db v =
    (if aid = [] then v\<lparr>v_loading := False\<rparr>
     else case accountDoc db of
       None \<Rightarrow> v\<lparr>v_loading := False\<rparr>
     | Some accountData \<Rightarrow>
        (let st = (case d_status accountData of None \<Rightarrow> Active | Some s \<Rightarrow> s);
             acc = \<lparr>acc_type = (case d_type accountData of None \<Rightarrow> Pph | Some t \<Rightarrow> t),
                    agentId = d_agentId accountData,
                    brokerId = None,
                    status = st,
                    depositAmount = d_depositAmount accountData,
                    referralPercentage = None,
                    promoAmount = None\<rparr>;
             entriesData = orderBy_date_desc (entriesQuery aid puid db);
             v2 = v\<lparr>v_account := Some acc, v_entries := entriesData\<rparr>
         in case find (\<lambda>e. date e = today) entriesData of
              Some todayEntry \<Rightarrow> v2\<lparr>v_currentEntry := todayEntry, v_loading := False\<rparr>
            | None \<Rightarrow>
               v2\<lparr>v_currentEntry := (v_currentEntry v2)
                       \<lparr>accountStatus := st,
                        startingBalance := Some (if d_type accountData = Some Legal
                           then or_zero (d_depositAmount accountData) else 0)\<rparr>,
                    v_loading := False\<rparr>))"

text \<open>
  \<open>handleDeleteEntry\<close> of the second document of part_002, \<open>confirmed\<close> being the
  answer to the confirmation dialog. It deletes the entry, runs the query again and, when
  nothing is left and the status of the account in the component state is not \<open>inactive\<close>,
  stores \<open>unused\<close>; then it reloads. \<open>updateDoc\<close> on a missing document rejects, and the
  \<open>catch\<close> skips the reload.
\<close>

definition handleDeleteEntry ::
  "bool \<Rightarrow> string \<Rightarrow> string \<Rightarrow> string \<Rightarrow> string \<Rightarrow> Db \<times> View \<Rightarrow> Db \<times> View" where
  "handleDeleteEntry confirmed aid puid today entryId s =
    (case s of (db, v) \<Rightarrow>
      if \<not> confirmed then (db, v)
      else
        (let db1 = db\<lparr>entryDocs := filter (\<lambda>e. entry_id e \<noteq> Some entryId) (entryDocs db)\<rparr>;
             entriesSnapshot = entriesQuery aid puid db1
         in if length entriesSnapshot = 0 then
              (if (case v_account v of None \<Rightarrow> True | Some a \<Rightarrow> status a \<noteq> Inactive) then
                 (case accountDoc db1 of
                    None \<Rightarrow> (db1, v)
                  | Some accountData \<Rightarrow>
                     (let db2 = db1\<lparr>accountDoc := Some (accountData\<lparr>d_status := Some Unused\<rparr>)\<rparr>
                      in (db2, fetchAccountData aid puid today db2 v)))
               else (db1, fetchAccountData aid puid today db1 v))
            else (db1, fetchAccountData aid puid today db1 v)))"

text \<open>
  \<open>handleDeleteEntry\<close> of the first document of part_002 has the same text; it reloads
  with the \<open>fetchAccountData\<close> of its own document.
\<close>

definition handleDeleteEntry_v2 ::
  "bool \<Rightarrow> string \<Rightarrow> string \<Rightarrow> string \<Rightarrow> string \<Rightarrow> Db \<times> View \<Rightarrow> Db \<times> View" where
  "handleDeleteEntry_v2 confirmed aid puid today entryId s =
    (case s of (db, v) \<Rightarrow>
      if \<not> confirmed then (db, v)
      else
        (let db1 = db\<lparr>entryDocs := filter (\<lambda>e. entry_id e \<noteq> Some entryId) (entryDocs db)\<rparr>;
             entriesSnapshot = entriesQuery aid puid db1
         in if length entriesSnapshot = 0 then
              (if (case v_account v of None \<Rightarrow> True | Some a \<Rightarrow> status a \<noteq> Inactive) then
                 (case accountDoc db1 of
                    None \<Rightarrow> (db1, v)
                  | Some accountData \<Rightarrow>
                     (let db2 = db1\<lparr>accountDoc := Some (accountData\<lparr>d_status := Some Unused\<rparr>)\<rparr>
                      in (db2, fetchAccountData_v2 aid puid today db2 v)))
               else (db1, fetchAccountData_v2 aid puid today db1 v))
            else (db1, fetchAccountData_v2 aid puid today db1 v)))"

subsection \<open>Initial state and sample data\<close>

text \<open>The initial \<open>currentEntry\<close> of the component: every amount is \<open>0\<close>.\<close>

definition initial_currentEntry :: "string \<Rightarrow> string \<Rightarrow> string \<Rightarrow> Entry" where
  "initial_currentEntry aid puid today =
    \<lparr>entry_id = None, accountId = aid, playerUid = puid, date = today,
     startingBalance = Some 0, endingBalance = Some 0, refillAmount = Some 0,
     withdrawal = Some 0, profitLoss = 0, clickerAmount = 0, accHolderAmount = 0,
     brokerAmount = 0, companyAmount = 0, taxableAmount = 0, referralAmount = 0,
     accountStatus = Active\<rparr>"

text \<open>The initial component state: no account, no broker, no entries, loading.\<close>

definition initial_View :: "string \<Rightarrow> string \<Rightarrow> string \<Rightarrow> View" where
  "initial_View aid puid today =
    \<lparr>v_account = None, v_broker = None, v_entries = [],
     v_currentEntry = initial_currentEntry aid puid today, v_loading = True\<rparr>"

text \<open>
  Sample data for the closed instances below: a legal account with a promo amount of 150,
  a referral of 5 percent and a broker; a player at 50 percent; an agent at 10 percent plus
  20 flat; a broker at 10 percent plus 25 flat; an entry going from 1000 to 1500 with a
  refill of 50 and a withdrawal of 200.
\<close>

definition sample_account :: Account where
  "sample_account =
    \<lparr>acc_type = Legal, agentId = ''agent1'', brokerId = Some ''broker1'', status = Active,
     depositAmount = Some 1000, referralPercentage = Some 5, promoAmount = Some 150\<rparr>"

definition sample_user :: UserData where
  "sample_user = \<lparr>uid = ''p1'', percentage = Some 50\<rparr>"

definition sample_agent :: AgentData where
  "sample_agent = \<lparr>commissionPercentage = Some 10, flatCommission = Some 20\<rparr>"

definition sample_broker :: Broker where
  "sample_broker =
    \<lparr>commissionType = Both, broker_commissionPercentage = Some 10,
     broker_flatCommission = Some 25\<rparr>"

definition sample_entry :: Entry where
  "sample_entry = (initial_currentEntry ''a1'' ''p1'' ''2024-05-01'')
     \<lparr>startingBalance := Some 1000, endingBalance := Some 1500,
      refillAmount := Some 50, withdrawal := Some 200\<rparr>"

text \<open>What the sample data settles to at a tax rate of 10, with and without broker and promo.\<close>

definition sample_settled :: Entry where
  "sample_settled = sample_entry\<lparr>profitLoss := 500, clickerAmount := 250,
     accHolderAmount := 70, brokerAmount := 75, companyAmount := 30,
     taxableAmount := 50, referralAmount := 25\<rparr>"

definition sample_settled_v2 :: Entry where
  "sample_settled_v2 = sample_entry\<lparr>profitLoss := 650, clickerAmount := 325,
     accHolderAmount := 85, companyAmount := 285 / 2,
     taxableAmount := 65, referralAmount := 65 / 2\<rparr>"

text \<open>A losing day: the balance falls from 1000 to 800.\<close>

definition sample_loss_entry :: Entry where
  "sample_loss_entry = (initial_currentEntry ''a1'' ''p1'' ''2024-05-02'')
     \<lparr>startingBalance := Some 1000, endingBalance := Some 800\<rparr>"

definition sample_loss_settled :: Entry where
  "sample_loss_settled = sample_loss_entry\<lparr>profitLoss := - 350, clickerAmount := - 175,
     accHolderAmount := - 15, brokerAmount := - 10, companyAmount := - (195 / 2),
     taxableAmount := - 35, referralAmount := - (35 / 2)\<rparr>"

definition sample_loss_settled_v2 :: Entry where
  "sample_loss_settled_v2 = sample_loss_entry\<lparr>profitLoss := - 200, clickerAmount := - 100,
     accHolderAmount := 0, companyAmount := - 70,
     taxableAmount := - 20, referralAmount := - 10\<rparr>"

text \<open>The sample entry settled under a broker by percentage, a flat broker and no broker.\<close>

definition sample_settled_percentage :: Entry where
  "sample_settled_percentage = sample_settled\<lparr>brokerAmount := 50, companyAmount := 55\<rparr>"

definition sample_settled_flat :: Entry where
  "sample_settled_flat = sample_settled\<lparr>brokerAmount := 25, companyAmount := 80\<rparr>"

definition sample_settled_no_broker :: Entry where
  "sample_settled_no_broker = sample_settled\<lparr>brokerAmount := 0, companyAmount := 105\<rparr>"

text \<open>The sample account with a referral of minus 5 percent, of 0 percent and without one.\<close>

definition sample_settled_negative_referral :: Entry where
  "sample_settled_negative_referral =
     sample_settled\<lparr>companyAmount := 80, referralAmount := - 25\<rparr>"

definition sample_settled_no_referral :: Entry where
  "sample_settled_no_referral = sample_settled\<lparr>companyAmount := 55, referralAmount := 0\<rparr>"

text \<open>
  A flat day under flat commissions only: the balance stays at 1000, every percentage is
  \<open>0\<close>, the agent takes 20 flat and the broker 25 flat.
\<close>

definition flat_only_account :: Account where
  "flat_only_account =
    \<lparr>acc_type = Legal, agentId = ''agent1'', brokerId = Some ''broker1'', status = Active,
     depositAmount = Some 1000, referralPercentage = Some 0, promoAmount = None\<rparr>"

definition flat_only_user :: UserData where
  "flat_only_user = \<lparr>uid = ''p1'', percentage = Some 0\<rparr>"

definition flat_only_agent :: AgentData where
  "flat_only_agent = \<lparr>commissionPercentage = Some 0, flatCommission = Some 20\<rparr>"

definition flat_only_broker :: Broker where
  "flat_only_broker =
    \<lparr>commissionType = Both, broker_commissionPercentage = Some 0,
     broker_flatCommission = Some 25\<rparr>"

definition flat_day_entry :: Entry where
  "flat_day_entry = (initial_currentEntry ''a1'' ''p1'' ''2024-05-03'')
     \<lparr>startingBalance := Some 1000, endingBalance := Some 1000\<rparr>"

definition flat_day_settled :: Entry where
  "flat_day_settled = flat_day_entry\<lparr>profitLoss := 0, clickerAmount := 0,
     accHolderAmount := 20, brokerAmount := 25, companyAmount := - 45,
     taxableAmount := 0, referralAmount := 0\<rparr>"

text \<open>
  The inputs of the computation with every missing number written as \<open>0\<close>; a missing
  agent document becomes an agent with \<open>0\<close> percent and \<open>0\<close> flat.
\<close>

definition zero_filled_entry :: "Entry \<Rightarrow> Entry" where
  "zero_filled_entry e =
     e\<lparr>startingBalance := Some (or_zero (startingBalance e)),
       endingBalance := Some (or_zero (endingBalance e)),
       refillAmount := Some (or_zero (refillAmount e)),
       withdrawal := Some (or_zero (withdrawal e))\<rparr>"

definition zero_filled_account :: "Account \<Rightarrow> Account" where
  "zero_filled_account a =
     a\<lparr>referralPercentage := Some (or_zero (referralPercentage a)),
       promoAmount := Some (or_zero (promoAmount a))\<rparr>"

definition zero_filled_user :: "UserData \<Rightarrow> UserData" where
  "zero_filled_user u = u\<lparr>percentage := Some (or_zero (percentage u))\<rparr>"

definition zero_filled_agent :: "AgentData option \<Rightarrow> AgentData option" where
  "zero_filled_agent agentData =
     (case agentData of
        None \<Rightarrow> Some \<lparr>commissionPercentage = Some 0, flatCommission = Some 0\<rparr>
      | Some ad \<Rightarrow> Some \<lparr>commissionPercentage = Some (or_zero (commissionPercentage ad)),
                          flatCommission = Some (or_zero (flatCommission ad))\<rparr>)"

definition zero_filled_broker :: "Broker \<Rightarrow> Broker" where
  "zero_filled_broker b =
     b\<lparr>broker_commissionPercentage := Some (or_zero (broker_commissionPercentage b)),
       broker_flatCommission := Some (or_zero (broker_flatCommission b))\<rparr>"

text \<open>The computed fields of an entry.\<close>

definition settlement :: "Entry \<Rightarrow> rat \<times> rat \<times> rat \<times> rat \<times> rat \<times> rat \<times> rat" where
  "settlement e = (profitLoss e, clickerAmount e, accHolderAmount e, brokerAmount e,
     taxableAmount e, referralAmount e, companyAmount e)"

text \<open>
  An entry with nothing filled in but an ending balance of 100, for an account, a player
  and a broker without numbers and an agent without a document.
\<close>

definition sparse_account :: Account where
  "sparse_account =
    \<lparr>acc_type = Pph, agentId = ''agent1'', brokerId = Some ''broker1'', status = Unused,
     depositAmount = None, referralPercentage = None, promoAmount = None\<rparr>"

definition sparse_user :: UserData where
  "sparse_user = \<lparr>uid = ''p1'', percentage = None\<rparr>"

definition sparse_broker :: Broker where
  "sparse_broker =
    \<lparr>commissionType = Both, broker_commissionPercentage = None,
     broker_flatCommission = None\<rparr>"

definition sparse_entry :: Entry where
  "sparse_entry = (initial_currentEntry ''a1'' ''p1'' ''2024-05-04'')
     \<lparr>startingBalance := None, endingBalance := Some 100, refillAmount := None,
      withdrawal := None\<rparr>"

definition sparse_settled :: Entry where
  "sparse_settled = sparse_entry\<lparr>profitLoss := 100, clickerAmount := 0,
     accHolderAmount := 0, brokerAmount := 0, companyAmount := 90,
     taxableAmount := 10, referralAmount := 0\<rparr>"

definition sparse_filled_settled :: Entry where
  "sparse_filled_settled = (zero_filled_entry sparse_entry)\<lparr>profitLoss := 100,
     clickerAmount := 0, accHolderAmount := 0, brokerAmount := 0, companyAmount := 90,
     taxableAmount := 10, referralAmount := 0\<rparr>"

text \<open>
  A store with a new legal account funded with 1000 and one with a new pph account,
  neither with an entry yet.
\<close>

definition new_legal_db :: Db where
  "new_legal_db =
    \<lparr>accountDoc = Some \<lparr>d_type = Some Legal, d_agentId = ''agent1'', d_brokerId = None,
        d_status = Some Unused, d_depositAmount = Some 1000, d_referralPercentage = None,
        d_promoAmount = None\<rparr>,
     brokerDoc = None, entryDocs = []\<rparr>"

definition new_pph_db :: Db where
  "new_pph_db =
    \<lparr>accountDoc = Some \<lparr>d_type = Some Pph, d_agentId = ''agent1'', d_brokerId = None,
        d_status = Some Unused, d_depositAmount = None, d_referralPercentage = None,
        d_promoAmount = None\<rparr>,
     brokerDoc = None, entryDocs = []\<rparr>"

text \<open>
  A store where the account has been set to \<open>inactive\<close> by hand and the player has one
  entry, of today.
\<close>

definition inactive_db :: Db where
  "inactive_db =
    \<lparr>accountDoc = Some \<lparr>d_type = Some Legal, d_agentId = ''agent1'', d_brokerId = None,
        d_status = Some Inactive, d_depositAmount = Some 1000, d_referralPercentage = None,
        d_promoAmount = None\<rparr>,
     brokerDoc = None,
     entryDocs = [sample_entry\<lparr>entry_id := Some ''e1''\<rparr>]\<rparr>"

subsection \<open>The computation in binary64\<close>

text \<open>
  The source computes in binary64. For the one claim that turns on rounding, the
  computation is modelled a second time with every operation rounded: the result of an
  operation is the exact result rounded to the nearest binary64 number, ties to the even
  significand. A number is still a rational, now one that binary64 holds. The exponent of
  \<open>x\<close> is the \<open>k\<close> with \<open>2 ^ k \<le> |x| < 2 ^ (k + 1)\<close>, not below \<open>-1022\<close> (below that the
  numbers are subnormal and one unit in the last place is \<open>2 ^ -1074\<close>); the significand
  has 53 bits. Overflow to infinity (a result of \<open>2 ^ 1024\<close> or more) and NaN are not
  modelled.
\<close>

definition exponent64 :: "rat \<Rightarrow> int" where
  "exponent64 x =
    (case quotient_of \<bar>x\<bar> of (p, q) \<Rightarrow>
       (let k = bitlen p - bitlen q in if 2 powi k \<le> \<bar>x\<bar> then k else k - 1))"

definition ulp64 :: "rat \<Rightarrow> rat" where
  "ulp64 x = 2 powi (max (exponent64 x) (- 1022) - 52)"

definition round_half_even :: "rat \<Rightarrow> int" where
  "round_half_even q =
    (let f = \<lfloor>q\<rfloor>; d = q - of_int f
     in if d < 1 / 2 then f
        else if 1 / 2 < d then f + 1
        else if even f then f else f + 1)"

definition round_binary64 :: "rat \<Rightarrow> rat" where
  "round_binary64 x =
    (if x = 0 then 0 else of_int (round_half_even (x / ulp64 x)) * ulp64 x)"

text \<open>The four operations of the source on numbers.\<close>

definition f64_add :: "rat \<Rightarrow> rat \<Rightarrow> rat" where
  "f64_add x y = round_binary64 (x + y)"

definition f64_sub :: "rat \<Rightarrow> rat \<Rightarrow> rat" where
  "f64_sub x y = round_binary64 (x - y)"

definition f64_mul :: "rat \<Rightarrow> rat \<Rightarrow> rat" where
  "f64_mul x y = round_binary64 (x * y)"

definition f64_div :: "rat \<Rightarrow> rat \<Rightarrow> rat" where
  "f64_div x y = round_binary64 (x / y)"

text \<open>
  \<open>calculateAmounts\<close> of the second document of part_002 once more, each \<open>+\<close>, \<open>-\<close>,
  \<open>*\<close> and \<open>/\<close> of the source rounded, in the order JavaScript evaluates them (left to
  right).
\<close>

definition calculateAmounts_binary64 ::
  "Account option \<Rightarrow> UserData option \<Rightarrow> Broker option \<Rightarrow> rat \<Rightarrow> AgentData fetched
     \<Rightarrow> Entry \<Rightarrow> fetch_error + Entry" where
  "calculateAmounts_binary64 account userData broker taxRate agent currentEntry =
    (let effectiveStarting = f64_add (or_zero (startingBalance currentEntry))
           (case account of None \<Rightarrow> 0 | Some a \<Rightarrow> or_zero (promoAmount a));
         pl = f64_sub (f64_add (f64_sub (or_zero (endingBalance currentEntry)) effectiveStarting)
                (or_zero (withdrawal currentEntry))) (or_zero (refillAmount currentEntry))
     in case account of
          None \<Rightarrow> Inr (currentEntry\<lparr>profitLoss := pl\<rparr>)
        | Some acc \<Rightarrow>
           (case userData of
              None \<Rightarrow> Inr (currentEntry\<lparr>profitLoss := pl\<rparr>)
            | Some u \<Rightarrow>
               (let clicker = f64_div (f64_mul pl (or_zero (percentage u))) 100
                in case agent of
                     Inl err \<Rightarrow> Inl err
                   | Inr agentData \<Rightarrow>
                      (let accHolder = (case agentData of
                               None \<Rightarrow> 0
                             | Some ad \<Rightarrow>
                                f64_add (f64_div (f64_mul pl (or_zero (commissionPercentage ad))) 100)
                                  (or_zero (flatCommission ad)));
                           brokerAmt = (case broker of
                               None \<Rightarrow> 0
                             | Some b \<Rightarrow>
                                if truthy_str (brokerId acc) then
                                  (case commissionType b of
                                     Percentage \<Rightarrow>
                                       f64_div (f64_mul pl (or_zero (broker_commissionPercentage b))) 100
                                   | Flat \<Rightarrow> or_zero (broker_flatCommission b)
                                   | Both \<Rightarrow>
                                       f64_add
                                         (f64_div (f64_mul pl (or_zero (broker_commissionPercentage b))) 100)
                                         (or_zero (broker_flatCommission b)))
                                else 0);
                           taxAmount = f64_div (f64_mul pl taxRate) 100;
                           referral = (case referralPercentage acc of
                               None \<Rightarrow> 0
                             | Some rp \<Rightarrow> if rp \<noteq> 0 then f64_div (f64_mul pl rp) 100 else 0);
                           company = f64_sub (f64_sub (f64_sub (f64_sub (f64_sub pl clicker)
                               accHolder) brokerAmt) taxAmount) referral
                       in Inr (currentEntry\<lparr>profitLoss := pl, clickerAmount := clicker,
                                 accHolderAmount := accHolder, brokerAmount := brokerAmt,
                                 companyAmount := company, taxableAmount := taxAmount,
                                 referralAmount := referral\<rparr>)))))"

text \<open>
  \<open>clickerAmount + accHolderAmount + brokerAmount + taxableAmount + referralAmount +
  companyAmount\<close> as JavaScript adds it, and the same without the broker amount for the
  first document of part_002.
\<close>

definition six_amounts_sum :: "Entry \<Rightarrow> rat" where
  "six_amounts_sum e =
     f64_add (f64_add (f64_add (f64_add (f64_add (clickerAmount e) (accHolderAmount e))
       (brokerAmount e)) (taxableAmount e)) (referralAmount e)) (companyAmount e)"



text \<open>\<open>calculateAmounts\<close> of the first document of part_002, rounded in the same way.\<close>

definition calculateAmounts_v2_binary64 ::
  "Account option \<Rightarrow> UserData option \<Rightarrow> rat \<Rightarrow> AgentData fetched
     \<Rightarrow> Entry \<Rightarrow> fetch_error + Entry" where
  "calculateAmounts_v2_binary64 account userData taxRate agent currentEntry =
    (let pl = f64_sub (f64_add (f64_sub (or_zero (endingBalance currentEntry))
                (or_zero (startingBalance currentEntry)))
                (or_zero (withdrawal currentEntry))) (or_zero (refillAmount currentEntry))
     in case account of
          None \<Rightarrow> Inr (currentEntry\<lparr>profitLoss := pl\<rparr>)
        | Some acc \<Rightarrow>
           (case userData of
              None \<Rightarrow> Inr (currentEntry\<lparr>profitLoss := pl\<rparr>)
            | Some u \<Rightarrow>
               (let clicker = f64_div (f64_mul pl (or_zero (percentage u))) 100
                in case agent of
                     Inl err \<Rightarrow> Inl err
                   | Inr agentData \<Rightarrow>
                      (let accHolder = (case agentData of
                               None \<Rightarrow> 0
                             | Some ad \<Rightarrow>
                                f64_add (f64_div (f64_mul pl (or_zero (commissionPercentage ad))) 100)
                                  (or_zero (flatCommission ad)));
                           taxAmount = f64_div (f64_mul pl taxRate) 100;
                           referral = (case referralPercentage acc of
                               None \<Rightarrow> 0
                             | Some rp \<Rightarrow> if rp \<noteq> 0 then f64_div (f64_mul pl rp) 100 else 0);
                           company = f64_sub (f64_sub (f64_sub (f64_sub pl clicker)
                               accHolder) taxAmount) referral
                       in Inr (currentEntry\<lparr>profitLoss := pl, clickerAmount := clicker,
                                 accHolderAmount := accHolder, companyAmount := company,
                                 taxableAmount := taxAmount, referralAmount := referral\<rparr>)))))"

definition five_amounts_sum :: "Entry \<Rightarrow> rat" where
  "five_amounts_sum e =
     f64_add (f64_add (f64_add (f64_add (clickerAmount e) (accHolderAmount e))
       (taxableAmount e)) (referralAmount e)) (companyAmount e)"

text \<open>
  The error of rounding an exact result, and the exact results of the operations between
  the stored amounts: the five subtractions that give the company amount and the five
  additions of the sum (four and four without the broker amount).
\<close>

definition rounding_error :: "rat \<Rightarrow> rat" where
  "rounding_error x = round_binary64 x - x"

definition residual_steps :: "Entry \<Rightarrow> rat list" where
  "residual_steps e =
    (let r1 = f64_sub (profitLoss e) (clickerAmount e);
         r2 = f64_sub r1 (accHolderAmount e);
         r3 = f64_sub r2 (brokerAmount e);
         r4 = f64_sub r3 (taxableAmount e)
     in [profitLoss e - clickerAmount e, r1 - accHolderAmount e, r2 - brokerAmount e,
         r3 - taxableAmount e, r4 - referralAmount e])"

definition sum_steps :: "Entry \<Rightarrow> rat list" where
  "sum_steps e =
    (let s1 = f64_add (clickerAmount e) (accHolderAmount e);
         s2 = f64_add s1 (brokerAmount e);
         s3 = f64_add s2 (taxableAmount e);
         s4 = f64_add s3 (referralAmount e)
     in [clickerAmount e + accHolderAmount e, s1 + brokerAmount e, s2 + taxableAmount e,
         s3 + referralAmount e, s4 + companyAmount e])"

definition residual_steps_v2 :: "Entry \<Rightarrow> rat list" where
  "residual_steps_v2 e =
    (let r1 = f64_sub (profitLoss e) (clickerAmount e);
         r2 = f64_sub r1 (accHolderAmount e);
         r3 = f64_sub r2 (taxableAmount e)
     in [profitLoss e - clickerAmount e, r1 - accHolderAmount e, r2 - taxableAmount e,
         r3 - referralAmount e])"

definition sum_steps_v2 :: "Entry \<Rightarrow> rat list" where
  "sum_steps_v2 e =
    (let s1 = f64_add (clickerAmount e) (accHolderAmount e);
         s2 = f64_add s1 (taxableAmount e);
         s3 = f64_add s2 (referralAmount e)
     in [clickerAmount e + accHolderAmount e, s1 + taxableAmount e, s2 + referralAmount e,
         s3 + companyAmount e])"

text \<open>An exact result that binary64 holds, so that rounding it changes nothing.\<close>

definition exact64 :: "rat \<Rightarrow> bool" where
  "exact64 x = (round_binary64 x = x)"

text \<open>
  Inputs of a magnitude of at most \<open>2 ^ 500\<close>: no operation of the computation on them
  reaches \<open>2 ^ 1024\<close>, so none overflows.
\<close>

definition moderate :: "rat option \<Rightarrow> bool" where
  "moderate x = (\<bar>or_zero x\<bar> \<le> 2 ^ 500)"

definition moderate_inputs ::
  "Account \<Rightarrow> UserData \<Rightarrow> Broker option \<Rightarrow> rat \<Rightarrow> AgentData option \<Rightarrow> Entry \<Rightarrow> bool" where
  "moderate_inputs acc u broker taxRate agentData e =
    (moderate (startingBalance e) \<and> moderate (endingBalance e)
     \<and> moderate (refillAmount e) \<and> moderate (withdrawal e)
     \<and> moderate (promoAmount acc) \<and> moderate (referralPercentage acc)
     \<and> moderate (percentage u) \<and> moderate (Some taxRate)
     \<and> (case agentData of
           None \<Rightarrow> True
         | Some ad \<Rightarrow> moderate (commissionPercentage ad) \<and> moderate (flatCommission ad))
     \<and> (case broker of
           None \<Rightarrow> True
         | Some b \<Rightarrow> moderate (broker_commissionPercentage b)
                     \<and> moderate (broker_flatCommission b)))"

text \<open>The sample entry with an ending balance of 1501 instead of 1500.\<close>

definition sample_entry_1501 :: Entry where
  "sample_entry_1501 = sample_entry\<lparr>endingBalance := Some 1501\<rparr>"

section \<open>Properties\<close>

subsection \<open>What the computations write\<close>

text \<open>
  A rejected lookup of the agent is the only way to \<open>Inl\<close>; otherwise each computed field
  of the result is the expression of the source, read off the new entry.
\<close>

lemma calculateAmounts_rejected:
  "calculateAmounts (Some acc) (Some u) broker taxRate (Inl err) e = Inl err"
  by (simp add: calculateAmounts_def Let_def)

lemma calculateAmounts_agent:
  assumes "calculateAmounts (Some acc) (Some u) broker taxRate agent e = Inr e'"
  shows "\<exists>agentData. agent = Inr agentData"
  using assms by (cases agent) (simp_all add: calculateAmounts_rejected)

lemma calculateAmounts_fields:
  assumes "calculateAmounts (Some acc) (Some u) broker taxRate (Inr agentData) e = Inr e'"
  shows "profitLoss e' = or_zero (endingBalance e)
           - (or_zero (startingBalance e) + or_zero (promoAmount acc))
           + or_zero (withdrawal e) - or_zero (refillAmount e)"
    and "clickerAmount e' = profitLoss e' * or_zero (percentage u) / 100"
    and "accHolderAmount e' = (case agentData of None \<Rightarrow> 0
           | Some ad \<Rightarrow> profitLoss e' * or_zero (commissionPercentage ad) / 100
                        + or_zero (flatCommission ad))"
    and "brokerAmount e' = (case broker of None \<Rightarrow> 0
           | Some b \<Rightarrow> if truthy_str (brokerId acc) then
               (case commissionType b of
                  Percentage \<Rightarrow> profitLoss e' * or_zero (broker_commissionPercentage b) / 100
                | Flat \<Rightarrow> or_zero (broker_flatCommission b)
                | Both \<Rightarrow> profitLoss e' * or_zero (broker_commissionPercentage b) / 100
                           + or_zero (broker_flatCommission b))
             else 0)"
    and "taxableAmount e' = profitLoss e' * taxRate / 100"
    and "referralAmount e' = (case referralPercentage acc of None \<Rightarrow> 0
           | Some rp \<Rightarrow> if rp \<noteq> 0 then profitLoss e' * rp / 100 else 0)"
    and "companyAmount e' = profitLoss e' - clickerAmount e' - accHolderAmount e'
           - brokerAmount e' - taxableAmount e' - referralAmount e'"
  using assms
  by (auto simp: calculateAmounts_def Let_def split: option.splits commission_type.splits)

lemma calculateAmounts_gate:
  assumes "account = None \<or> userData = None"
  shows "calculateAmounts account userData broker taxRate agent e =
     Inr (e\<lparr>profitLoss := or_zero (endingBalance e)
        - (or_zero (startingBalance e) + or_zero (Option.bind account promoAmount))
        + or_zero (withdrawal e) - or_zero (refillAmount e)\<rparr>)"
  using assms unfolding calculateAmounts_def Let_def
  by (auto simp: or_zero_def split: option.splits)

lemma calculateEditingAmounts_rejected:
  "calculateEditingAmounts (Some acc) (Some u) broker taxRate (Inl err) (Some e) = Inl err"
  by (simp add: calculateEditingAmounts_def Let_def)

lemma calculateEditingAmounts_agent:
  assumes "calculateEditingAmounts (Some acc) (Some u) broker taxRate agent (Some e) = Inr r"
  shows "\<exists>agentData. agent = Inr agentData"
  using assms by (cases agent) (simp_all add: calculateEditingAmounts_rejected)

lemma calculateEditingAmounts_fields:
  assumes "calculateEditingAmounts (Some acc) (Some u) broker taxRate (Inr agentData) (Some e)
             = Inr (Some e')"
  shows "profitLoss e' = or_zero (endingBalance e)
           - (or_zero (startingBalance e) + or_zero (promoAmount acc))
           + or_zero (withdrawal e) - or_zero (refillAmount e)"
    and "clickerAmount e' = profitLoss e' * or_zero (percentage u) / 100"
    and "accHolderAmount e' = (case agentData of None \<Rightarrow> 0
           | Some ad \<Rightarrow> profitLoss e' * or_zero (commissionPercentage ad) / 100
                        + or_zero (flatCommission ad))"
    and "brokerAmount e' = (case broker of None \<Rightarrow> 0
           | Some b \<Rightarrow> if truthy_str (brokerId acc) then
               (case commissionType b of
                  Percentage \<Rightarrow> profitLoss e' * or_zero (broker_commissionPercentage b) / 100
                | Flat \<Rightarrow> or_zero (broker_flatCommission b)
                | Both \<Rightarrow> profitLoss e' * or_zero (broker_commissionPercentage b) / 100
                           + or_zero (broker_flatCommission b))
             else 0)"
    and "taxableAmount e' = profitLoss e' * taxRate / 100"
    and "referralAmount e' = (case referralPercentage acc of None \<Rightarrow> 0
           | Some rp \<Rightarrow> if rp \<noteq> 0 then profitLoss e' * rp / 100 else 0)"
    and "companyAmount e' = profitLoss e' - clickerAmount e' - accHolderAmount e'
           - brokerAmount e' - taxableAmount e' - referralAmount e'"
  using assms
  by (auto simp: calculateEditingAmounts_def Let_def split: option.splits commission_type.splits)

lemma calculateAmounts_v2_rejected:
  "calculateAmounts_v2 (Some acc) (Some u) taxRate (Inl err) e = Inl err"
  by (simp add: calculateAmounts_v2_def Let_def)

lemma calculateAmounts_v2_agent:
  assumes "calculateAmounts_v2 (Some acc) (Some u) taxRate agent e = Inr e'"
  shows "\<exists>agentData. agent = Inr agentData"
  using assms by (cases agent) (simp_all add: calculateAmounts_v2_rejected)

lemma calculateAmounts_v2_fields:
  assumes "calculateAmounts_v2 (Some acc) (Some u) taxRate (Inr agentData) e = Inr e'"
  shows "profitLoss e' = or_zero (endingBalance e) - or_zero (startingBalance e)
           + or_zero (withdrawal e) - or_zero (refillAmount e)"
    and "clickerAmount e' = profitLoss e' * or_zero (percentage u) / 100"
    and "accHolderAmount e' = (case agentData of None \<Rightarrow> 0
           | Some ad \<Rightarrow> profitLoss e' * or_zero (commissionPercentage ad) / 100
                        + or_zero (flatCommission ad))"
    and "taxableAmount e' = profitLoss e' * taxRate / 100"
    and "referralAmount e' = (case referralPercentage acc of None \<Rightarrow> 0
           | Some rp \<Rightarrow> if rp \<noteq> 0 then profitLoss e' * rp / 100 else 0)"
    and "companyAmount e' = profitLoss e' - clickerAmount e' - accHolderAmount e'
           - taxableAmount e' - referralAmount e'"
  using assms
  by (auto simp: calculateAmounts_v2_def Let_def split: option.splits)

lemma calculateAmounts_v2_gate:
  assumes "account = None \<or> userData = None"
  shows "calculateAmounts_v2 account userData taxRate agent e =
     Inr (e\<lparr>profitLoss := or_zero (endingBalance e) - or_zero (startingBalance e)
        + or_zero (withdrawal e) - or_zero (refillAmount e)\<rparr>)"
  using assms unfolding calculateAmounts_v2_def Let_def
  by (auto split: option.splits)

subsection \<open>The sample data, evaluated\<close>

text \<open>Each sample input settles to the entry written out for it among the definitions.\<close>

lemmas sample_defs = sample_account_def sample_user_def sample_broker_def sample_agent_def
  sample_entry_def sample_settled_def sample_settled_v2_def sample_loss_entry_def
  sample_loss_settled_def sample_loss_settled_v2_def sample_settled_percentage_def
  sample_settled_flat_def sample_settled_no_broker_def initial_currentEntry_def
  or_zero_def truthy_str_def

lemma sample_loss_calculateAmounts:
  "calculateAmounts (Some sample_account) (Some sample_user) (Some sample_broker) 10
     (Inr (Some sample_agent)) sample_loss_entry = Inr sample_loss_settled"
  by (simp add: calculateAmounts_def Let_def sample_defs)

lemma sample_loss_calculateEditingAmounts:
  "calculateEditingAmounts (Some sample_account) (Some sample_user) (Some sample_broker) 10
     (Inr (Some sample_agent)) (Some sample_loss_entry) = Inr (Some sample_loss_settled)"
  by (simp add: calculateEditingAmounts_def Let_def sample_defs)

lemma sample_loss_calculateAmounts_v2:
  "calculateAmounts_v2 (Some sample_account) (Some sample_user) 10
     (Inr (Some sample_agent)) sample_loss_entry = Inr sample_loss_settled_v2"
  by (simp add: calculateAmounts_v2_def Let_def sample_defs)

lemma sample_percentage_calculateAmounts:
  "calculateAmounts (Some sample_account) (Some sample_user)
     (Some (sample_broker\<lparr>commissionType := Percentage\<rparr>)) 10
     (Inr (Some sample_agent)) sample_entry = Inr sample_settled_percentage"
  by (simp add: calculateAmounts_def Let_def sample_defs)

lemma sample_flat_calculateAmounts:
  "calculateAmounts (Some sample_account) (Some sample_user)
     (Some (sample_broker\<lparr>commissionType := Flat\<rparr>)) 10
     (Inr (Some sample_agent)) sample_entry = Inr sample_settled_flat"
  by (simp add: calculateAmounts_def Let_def sample_defs)

lemma sample_both_calculateAmounts:
  "calculateAmounts (Some sample_account) (Some sample_user)
     (Some (sample_broker\<lparr>commissionType := Both\<rparr>)) 10
     (Inr (Some sample_agent)) sample_entry = Inr sample_settled"
  by (simp add: calculateAmounts_def Let_def sample_defs)

lemma sample_no_broker_calculateAmounts:
  "calculateAmounts (Some sample_account) (Some sample_user) None 10
     (Inr (Some sample_agent)) sample_entry = Inr sample_settled_no_broker"
  by (simp add: calculateAmounts_def Let_def sample_defs)

lemma sample_unlinked_calculateAmounts:
  "calculateAmounts (Some (sample_account\<lparr>brokerId := None\<rparr>)) (Some sample_user)
     (Some sample_broker) 10 (Inr (Some sample_agent)) sample_entry
     = Inr sample_settled_no_broker"
  by (simp add: calculateAmounts_def Let_def sample_defs)

lemma sample_calculateAmounts:
  "calculateAmounts (Some sample_account) (Some sample_user) (Some sample_broker) 10
     (Inr (Some sample_agent)) sample_entry = Inr sample_settled"
  by (simp add: calculateAmounts_def Let_def sample_account_def sample_user_def
      sample_broker_def sample_agent_def sample_entry_def sample_settled_def
      initial_currentEntry_def or_zero_def truthy_str_def)

lemma sample_calculateEditingAmounts:
  "calculateEditingAmounts (Some sample_account) (Some sample_user) (Some sample_broker) 10
     (Inr (Some sample_agent)) (Some sample_entry) = Inr (Some sample_settled)"
  by (simp add: calculateEditingAmounts_def Let_def sample_account_def sample_user_def
      sample_broker_def sample_agent_def sample_entry_def sample_settled_def
      initial_currentEntry_def or_zero_def truthy_str_def)

lemma sample_calculateAmounts_v2:
  "calculateAmounts_v2 (Some sample_account) (Some sample_user) 10
     (Inr (Some sample_agent)) sample_entry = Inr sample_settled_v2"
  by (simp add: calculateAmounts_v2_def Let_def sample_account_def sample_user_def
      sample_agent_def sample_entry_def sample_settled_v2_def
      initial_currentEntry_def or_zero_def)

lemma sample_negative_referral_calculateAmounts:
  "calculateAmounts (Some (sample_account\<lparr>referralPercentage := Some (- 5)\<rparr>))
     (Some sample_user) (Some sample_broker) 10 (Inr (Some sample_agent)) sample_entry
     = Inr sample_settled_negative_referral"
  by (simp add: calculateAmounts_def Let_def sample_defs sample_settled_negative_referral_def)

lemma sample_zero_referral_calculateAmounts:
  "calculateAmounts (Some (sample_account\<lparr>referralPercentage := Some 0\<rparr>))
     (Some sample_user) (Some sample_broker) 10 (Inr (Some sample_agent)) sample_entry
     = Inr sample_settled_no_referral"
  by (simp add: calculateAmounts_def Let_def sample_defs sample_settled_no_referral_def)

lemma sample_no_referral_calculateAmounts:
  "calculateAmounts (Some (sample_account\<lparr>referralPercentage := None\<rparr>))
     (Some sample_user) (Some sample_broker) 10 (Inr (Some sample_agent)) sample_entry
     = Inr sample_settled_no_referral"
  by (simp add: calculateAmounts_def Let_def sample_defs sample_settled_no_referral_def)

lemmas flat_only_defs = flat_only_account_def flat_only_user_def flat_only_agent_def
  flat_only_broker_def flat_day_entry_def flat_day_settled_def initial_currentEntry_def
  or_zero_def truthy_str_def

lemma flat_day_calculateAmounts:
  "calculateAmounts (Some flat_only_account) (Some flat_only_user) (Some flat_only_broker) 0
     (Inr (Some flat_only_agent)) flat_day_entry = Inr flat_day_settled"
  by (simp add: calculateAmounts_def Let_def flat_only_defs)

lemmas sparse_defs = sparse_account_def sparse_user_def sparse_broker_def sparse_entry_def
  sparse_settled_def sparse_filled_settled_def zero_filled_entry_def zero_filled_account_def
  zero_filled_user_def zero_filled_agent_def zero_filled_broker_def initial_currentEntry_def
  or_zero_def truthy_str_def

lemma sparse_calculateAmounts:
  "calculateAmounts (Some sparse_account) (Some sparse_user) (Some sparse_broker) 10
     (Inr None) sparse_entry = Inr sparse_settled"
  by (simp add: calculateAmounts_def Let_def sparse_defs)

lemma sparse_filled_calculateAmounts:
  "calculateAmounts (Some (zero_filled_account sparse_account))
     (Some (zero_filled_user sparse_user)) (map_option zero_filled_broker (Some sparse_broker))
     10 (Inr (zero_filled_agent None)) (zero_filled_entry sparse_entry)
     = Inr sparse_filled_settled"
  by (simp add: calculateAmounts_def Let_def sparse_defs)

subsection \<open>Profit and loss\<close>

text \<open>
  C1. Every computation of an entry that completes stores
  \<open>profitLoss = endingBalance - effectiveStarting + withdrawal - refillAmount\<close> with
  \<open>effectiveStarting = startingBalance + promoAmount\<close> of the account, an absent promo
  amount (and an absent account) counting as \<open>0\<close>, and every absent balance as \<open>0\<close>.
  The two earlier revisions have no promo amount in their \<open>Account\<close>: there the term is
  the absent one. A rejected lookup of the agent completes nothing and writes nothing.
\<close>

theorem profitLoss_formula:
  "(calculateAmounts account userData broker taxRate agent e = Inr e1 \<longrightarrow>
      profitLoss e1 = or_zero (endingBalance e)
        - (or_zero (startingBalance e) + or_zero (Option.bind account promoAmount))
        + or_zero (withdrawal e) - or_zero (refillAmount e))
   \<and> (calculateEditingAmounts (Some acc) (Some u) broker taxRate agent (Some e) = Inr (Some e2) \<longrightarrow>
      profitLoss e2 = or_zero (endingBalance e)
        - (or_zero (startingBalance e) + or_zero (promoAmount acc))
        + or_zero (withdrawal e) - or_zero (refillAmount e))
   \<and> (calculateAmounts_v2 account userData taxRate agent e = Inr e3 \<longrightarrow>
      profitLoss e3 = or_zero (endingBalance e)
        - (or_zero (startingBalance e) + or_zero None)
        + or_zero (withdrawal e) - or_zero (refillAmount e))
   \<and> profitLoss (profitLoss_effect_v1 e) = or_zero (endingBalance e)
        - (or_zero (startingBalance e) + or_zero None)
        + or_zero (withdrawal e) - or_zero (refillAmount e)
   \<and> map_option profitLoss (editing_profitLoss_effect_v1 (Some e))
        = Some (or_zero (endingBalance e)
        - (or_zero (startingBalance e) + or_zero None)
        + or_zero (withdrawal e) - or_zero (refillAmount e))"
proof (intro conjI impI)
  assume r: "calculateAmounts account userData broker taxRate agent e = Inr e1"
  show "profitLoss e1 = or_zero (endingBalance e)
        - (or_zero (startingBalance e) + or_zero (Option.bind account promoAmount))
        + or_zero (withdrawal e) - or_zero (refillAmount e)"
  proof (cases "account = None \<or> userData = None")
    case True
    from calculateAmounts_gate [OF True] r show ?thesis by auto
  next
    case False
    then obtain a u' where au: "account = Some a" "userData = Some u'" by auto
    with r calculateAmounts_agent obtain ad where "agent = Inr ad" by blast
    with r au calculateAmounts_fields(1) [of a u' broker taxRate ad e e1]
    show ?thesis by simp
  qed
next
  assume r: "calculateEditingAmounts (Some acc) (Some u) broker taxRate agent (Some e) = Inr (Some e2)"
  with calculateEditingAmounts_agent obtain ad where "agent = Inr ad" by blast
  with r calculateEditingAmounts_fields(1) [of acc u broker taxRate ad e e2]
  show "profitLoss e2 = or_zero (endingBalance e)
        - (or_zero (startingBalance e) + or_zero (promoAmount acc))
        + or_zero (withdrawal e) - or_zero (refillAmount e)" by simp
next
  assume r: "calculateAmounts_v2 account userData taxRate agent e = Inr e3"
  show "profitLoss e3 = or_zero (endingBalance e)
        - (or_zero (startingBalance e) + or_zero None)
        + or_zero (withdrawal e) - or_zero (refillAmount e)"
  proof (cases "account = None \<or> userData = None")
    case True
    from calculateAmounts_v2_gate [OF True] r show ?thesis by (auto simp: or_zero_def)
  next
    case False
    then obtain a u' where au: "account = Some a" "userData = Some u'" by auto
    with r calculateAmounts_v2_agent obtain ad where "agent = Inr ad" by blast
    with r au calculateAmounts_v2_fields(1) [of a u' taxRate ad e e3]
    show ?thesis by (simp add: or_zero_def)
  qed
next
  show "profitLoss (profitLoss_effect_v1 e) = or_zero (endingBalance e)
        - (or_zero (startingBalance e) + or_zero None)
        + or_zero (withdrawal e) - or_zero (refillAmount e)"
    by (simp add: profitLoss_effect_v1_def Let_def or_zero_def)
next
  show "map_option profitLoss (editing_profitLoss_effect_v1 (Some e))
        = Some (or_zero (endingBalance e)
        - (or_zero (startingBalance e) + or_zero None)
        + or_zero (withdrawal e) - or_zero (refillAmount e))"
    by (simp add: editing_profitLoss_effect_v1_def Let_def or_zero_def)
qed

theorem profitLoss_formula_witness:
  "calculateAmounts (Some sample_account) (Some sample_user) (Some sample_broker) 10
     (Inr (Some sample_agent)) sample_entry = Inr sample_settled
   \<and> profitLoss sample_settled = 1500 - (1000 + 150) + 200 - 50
   \<and> calculateEditingAmounts (Some sample_account) (Some sample_user) (Some sample_broker) 10
     (Inr (Some sample_agent)) (Some sample_entry) = Inr (Some sample_settled)
   \<and> calculateAmounts_v2 (Some sample_account) (Some sample_user) 10
     (Inr (Some sample_agent)) sample_entry = Inr sample_settled_v2
   \<and> profitLoss sample_settled_v2 = 1500 - (1000 + 0) + 200 - 50
   \<and> profitLoss (profitLoss_effect_v1 sample_entry) = 1500 - (1000 + 0) + 200 - 50
   \<and> map_option profitLoss (editing_profitLoss_effect_v1 (Some sample_entry))
       = Some (1500 - (1000 + 0) + 200 - 50)"
  using profitLoss_formula [of "Some sample_account" "Some sample_user" "Some sample_broker" 10
      "Inr (Some sample_agent)" sample_entry sample_settled sample_account sample_user
      sample_settled sample_settled_v2]
    sample_calculateAmounts sample_calculateEditingAmounts sample_calculateAmounts_v2
  by (simp add: sample_account_def sample_entry_def initial_currentEntry_def or_zero_def)

subsection \<open>The residual\<close>

text \<open>
  In exact arithmetic the company amount is the profit/loss minus the other amounts, so
  the amounts add up to the profit/loss, whatever its sign. The source computes in
  binary64, where this holds up to rounding only; that is the subject of what follows
  this lemma.
\<close>

lemma residual_exact_arithmetic:
  "(calculateAmounts (Some acc) (Some u) broker taxRate agent e = Inr e1 \<longrightarrow>
      clickerAmount e1 + accHolderAmount e1 + brokerAmount e1 + taxableAmount e1
        + referralAmount e1 + companyAmount e1 = profitLoss e1
      \<and> companyAmount e1 = profitLoss e1 - clickerAmount e1 - accHolderAmount e1
        - brokerAmount e1 - taxableAmount e1 - referralAmount e1)
   \<and> (calculateEditingAmounts (Some acc) (Some u) broker taxRate agent (Some e) = Inr (Some e2) \<longrightarrow>
      clickerAmount e2 + accHolderAmount e2 + brokerAmount e2 + taxableAmount e2
        + referralAmount e2 + companyAmount e2 = profitLoss e2
      \<and> companyAmount e2 = profitLoss e2 - clickerAmount e2 - accHolderAmount e2
        - brokerAmount e2 - taxableAmount e2 - referralAmount e2)
   \<and> (calculateAmounts_v2 (Some acc) (Some u) taxRate agent e = Inr e3 \<longrightarrow>
      clickerAmount e3 + accHolderAmount e3 + taxableAmount e3
        + referralAmount e3 + companyAmount e3 = profitLoss e3
      \<and> companyAmount e3 = profitLoss e3 - clickerAmount e3 - accHolderAmount e3
        - taxableAmount e3 - referralAmount e3)"
proof (intro conjI impI)
  assume r: "calculateAmounts (Some acc) (Some u) broker taxRate agent e = Inr e1"
  from calculateAmounts_agent [OF r] obtain ad where "agent = Inr ad" ..
  with r have c: "companyAmount e1 = profitLoss e1 - clickerAmount e1 - accHolderAmount e1
        - brokerAmount e1 - taxableAmount e1 - referralAmount e1"
    using calculateAmounts_fields(7) by blast
  show "companyAmount e1 = profitLoss e1 - clickerAmount e1 - accHolderAmount e1
        - brokerAmount e1 - taxableAmount e1 - referralAmount e1" by (rule c)
  show "clickerAmount e1 + accHolderAmount e1 + brokerAmount e1 + taxableAmount e1
        + referralAmount e1 + companyAmount e1 = profitLoss e1"
    by (simp add: c)
next
  assume r: "calculateEditingAmounts (Some acc) (Some u) broker taxRate agent (Some e) = Inr (Some e2)"
  from calculateEditingAmounts_agent [OF r] obtain ad where "agent = Inr ad" ..
  with r have c: "companyAmount e2 = profitLoss e2 - clickerAmount e2 - accHolderAmount e2
        - brokerAmount e2 - taxableAmount e2 - referralAmount e2"
    using calculateEditingAmounts_fields(7) by blast
  show "companyAmount e2 = profitLoss e2 - clickerAmount e2 - accHolderAmount e2
        - brokerAmount e2 - taxableAmount e2 - referralAmount e2" by (rule c)
  show "clickerAmount e2 + accHolderAmount e2 + brokerAmount e2 + taxableAmount e2
        + referralAmount e2 + companyAmount e2 = profitLoss e2"
    by (simp add: c)
next
  assume r: "calculateAmounts_v2 (Some acc) (Some u) taxRate agent e = Inr e3"
  from calculateAmounts_v2_agent [OF r] obtain ad where "agent = Inr ad" ..
  with r have c: "companyAmount e3 = profitLoss e3 - clickerAmount e3 - accHolderAmount e3
        - taxableAmount e3 - referralAmount e3"
    using calculateAmounts_v2_fields(6) by blast
  show "companyAmount e3 = profitLoss e3 - clickerAmount e3 - accHolderAmount e3
        - taxableAmount e3 - referralAmount e3" by (rule c)
  show "clickerAmount e3 + accHolderAmount e3 + taxableAmount e3
        + referralAmount e3 + companyAmount e3 = profitLoss e3"
    by (simp add: c)
qed

subsection \<open>Rounding to binary64\<close>

text \<open>
  The rounding is to a binary64 number: the exponent brackets the magnitude, the
  significand has at most 53 bits, and the error is at most half a unit in the last place.
\<close>

lemma ulp64_pos: "0 < ulp64 x"
  by (simp add: ulp64_def zero_less_power_int)

lemma round_half_even_error: "\<bar>of_int (round_half_even q) - q\<bar> \<le> 1 / 2"
proof -
  have "of_int \<lfloor>q\<rfloor> \<le> q" "q < of_int \<lfloor>q\<rfloor> + 1" by linarith+
  then show ?thesis
    by (auto simp: round_half_even_def Let_def)
qed

lemma rounding_error_half_ulp: "\<bar>rounding_error x\<bar> \<le> ulp64 x / 2"
proof (cases "x = 0")
  case True
  then show ?thesis using ulp64_pos [of 0] by (simp add: rounding_error_def round_binary64_def)
next
  case False
  let ?u = "ulp64 x"
  have u: "0 < ?u" by (rule ulp64_pos)
  have "rounding_error x = (of_int (round_half_even (x / ?u)) - x / ?u) * ?u"
    using False u by (simp add: rounding_error_def round_binary64_def algebra_simps)
  then have "\<bar>rounding_error x\<bar> = \<bar>of_int (round_half_even (x / ?u)) - x / ?u\<bar> * ?u"
    using u by (simp add: abs_mult)
  also have "\<dots> \<le> (1 / 2) * ?u"
    using round_half_even_error [of "x / ?u"] u by (intro mult_right_mono) simp_all
  finally show ?thesis by simp
qed

lemma exponent64_bounds:
  assumes "x \<noteq> 0"
  shows "2 powi (exponent64 x) \<le> \<bar>x\<bar>" and "\<bar>x\<bar> < 2 powi (exponent64 x + 1)"
proof -
  obtain p q where pq: "quotient_of \<bar>x\<bar> = (p, q)" by (cases "quotient_of \<bar>x\<bar>")
  then have q: "0 < q" and x: "\<bar>x\<bar> = of_int p / of_int q"
    using quotient_of_denom_pos quotient_of_div by blast+
  from assms have "0 < \<bar>x\<bar>" by simp
  with x q have p: "0 < p"
    by (simp add: zero_less_divide_iff)
  let ?k = "bitlen p - bitlen q"
  from bitlen_bounds [OF p]
  have p1: "(2::int) ^ nat (bitlen p - 1) \<le> p" and p2: "p < 2 ^ nat (bitlen p)"
    by simp_all
  from bitlen_bounds [OF q]
  have q1: "(2::int) ^ nat (bitlen q - 1) \<le> q" and q2: "q < 2 ^ nat (bitlen q)"
    by simp_all
  have bp: "1 \<le> bitlen p" using p by (simp add: bitlen_alt_def)
  have bq: "1 \<le> bitlen q" using q by (simp add: bitlen_alt_def)
  have P1: "(2::rat) powi (bitlen p - 1) \<le> of_int p"
  proof -
    have "(of_int ((2::int) ^ nat (bitlen p - 1)) :: rat) \<le> of_int p"
      using p1 by (simp only: of_int_le_iff)
    then show ?thesis using bp by (simp add: power_int_def)
  qed
  have P2: "of_int p < (2::rat) powi (bitlen p)"
  proof -
    have "(of_int p :: rat) < of_int ((2::int) ^ nat (bitlen p))"
      using p2 by (simp only: of_int_less_iff)
    then show ?thesis using bp by (simp add: power_int_def)
  qed
  have Q1: "(2::rat) powi (bitlen q - 1) \<le> of_int q"
  proof -
    have "(of_int ((2::int) ^ nat (bitlen q - 1)) :: rat) \<le> of_int q"
      using q1 by (simp only: of_int_le_iff)
    then show ?thesis using bq by (simp add: power_int_def)
  qed
  have Q2: "of_int q < (2::rat) powi (bitlen q)"
  proof -
    have "(of_int q :: rat) < of_int ((2::int) ^ nat (bitlen q))"
      using q2 by (simp only: of_int_less_iff)
    then show ?thesis using bq by (simp add: power_int_def)
  qed
  have pos: "(0::rat) < 2 powi n" for n
    by (simp add: zero_less_power_int)
  have lower: "(2::rat) powi (?k - 1) < \<bar>x\<bar>"
  proof -
    have "(2::rat) powi (?k - 1) = 2 powi (bitlen p - 1) / 2 powi (bitlen q)"
      by (simp add: power_int_diff [symmetric] algebra_simps)
    also have "\<dots> < of_int p / of_int q"
      using pos [of "bitlen p - 1"] P1 q Q2 by (intro frac_less2) simp_all
    finally show ?thesis by (simp add: x)
  qed
  have upper: "\<bar>x\<bar> < (2::rat) powi (?k + 1)"
  proof -
    have "of_int p / of_int q < (2::rat) powi (bitlen p) / 2 powi (bitlen q - 1)"
      using p P2 pos [of "bitlen q - 1"] Q1 by (intro frac_less) simp_all
    also have "\<dots> = 2 powi (?k + 1)"
      by (simp add: power_int_diff [symmetric] algebra_simps)
    finally show ?thesis by (simp add: x)
  qed
  show "2 powi (exponent64 x) \<le> \<bar>x\<bar>"
    using lower by (simp add: exponent64_def pq Let_def)
  show "\<bar>x\<bar> < 2 powi (exponent64 x + 1)"
    using upper by (auto simp add: exponent64_def pq Let_def)
qed

lemma round_binary64_significand:
  "\<bar>round_half_even (x / ulp64 x)\<bar> \<le> 2 ^ 53"
proof (cases "x = 0")
  case True
  then show ?thesis by (simp add: round_half_even_def)
next
  case False
  let ?m = "max (exponent64 x) (- 1022)"
  have "\<bar>x\<bar> < 2 powi (exponent64 x + 1)" by (rule exponent64_bounds(2) [OF False])
  also have "\<dots> \<le> 2 powi (?m + 1)"
    by (intro power_int_increasing) simp_all
  finally have "\<bar>x\<bar> / ulp64 x < 2 powi (?m + 1) / ulp64 x"
    using ulp64_pos [of x] by (simp add: divide_strict_right_mono)
  also have "2 powi (?m + 1) / ulp64 x = 2 powi 53"
    unfolding ulp64_def by (simp add: power_int_diff [symmetric])
  finally have q: "\<bar>x / ulp64 x\<bar> < 2 ^ 53"
    using ulp64_pos [of x] by (simp add: abs_divide)
  let ?q = "x / ulp64 x"
  from q have "?q < 2 ^ 53" "- (2 ^ 53) < ?q" by linarith+
  then have fb: "\<lfloor>?q\<rfloor> < 2 ^ 53" "- (2 ^ 53) \<le> \<lfloor>?q\<rfloor>"
    by (simp_all add: floor_less_iff le_floor_iff)
  have "round_half_even ?q = \<lfloor>?q\<rfloor> \<or> round_half_even ?q = \<lfloor>?q\<rfloor> + 1"
    by (simp add: round_half_even_def Let_def)
  with fb show ?thesis by linarith
qed

subsection \<open>The residual under rounding\<close>

text \<open>The company amount that the rounded computation stores.\<close>

lemma calculateAmounts_binary64_rejected:
  "calculateAmounts_binary64 (Some acc) (Some u) broker taxRate (Inl err) e = Inl err"
  by (simp add: calculateAmounts_binary64_def Let_def)

lemma calculateAmounts_binary64_company:
  assumes "calculateAmounts_binary64 (Some acc) (Some u) broker taxRate agent e = Inr e1"
  shows "companyAmount e1 = f64_sub (f64_sub (f64_sub (f64_sub (f64_sub (profitLoss e1)
     (clickerAmount e1)) (accHolderAmount e1)) (brokerAmount e1)) (taxableAmount e1))
     (referralAmount e1)"
proof (cases agent)
  case (Inl err)
  with assms show ?thesis by (simp add: calculateAmounts_binary64_rejected)
next
  case (Inr agentData)
  with assms show ?thesis
    by (auto simp: calculateAmounts_binary64_def Let_def)
qed

lemma calculateAmounts_v2_binary64_company:
  assumes "calculateAmounts_v2_binary64 (Some acc) (Some u) taxRate agent e = Inr e1"
  shows "companyAmount e1 = f64_sub (f64_sub (f64_sub (f64_sub (profitLoss e1)
     (clickerAmount e1)) (accHolderAmount e1)) (taxableAmount e1)) (referralAmount e1)"
proof (cases agent)
  case (Inl err)
  with assms show ?thesis by (simp add: calculateAmounts_v2_binary64_def Let_def)
next
  case (Inr agentData)
  with assms show ?thesis
    by (auto simp: calculateAmounts_v2_binary64_def Let_def)
qed

text \<open>
  Each rounded operation is the exact one plus its rounding error, so the sum of the
  amounts is off the profit/loss by the ten errors together.
\<close>

lemma six_amounts_sum_error:
  assumes "companyAmount e = f64_sub (f64_sub (f64_sub (f64_sub (f64_sub (profitLoss e)
     (clickerAmount e)) (accHolderAmount e)) (brokerAmount e)) (taxableAmount e))
     (referralAmount e)"
  shows "six_amounts_sum e - profitLoss e
     = sum_list (map rounding_error (residual_steps e @ sum_steps e))"
proof -
  have sub: "f64_sub x y = x - y + rounding_error (x - y)" for x y
    by (simp add: f64_sub_def rounding_error_def)
  have add: "f64_add x y = x + y + rounding_error (x + y)" for x y
    by (simp add: f64_add_def rounding_error_def)
  define r1 where "r1 = f64_sub (profitLoss e) (clickerAmount e)"
  define r2 where "r2 = f64_sub r1 (accHolderAmount e)"
  define r3 where "r3 = f64_sub r2 (brokerAmount e)"
  define r4 where "r4 = f64_sub r3 (taxableAmount e)"
  define s1 where "s1 = f64_add (clickerAmount e) (accHolderAmount e)"
  define s2 where "s2 = f64_add s1 (brokerAmount e)"
  define s3 where "s3 = f64_add s2 (taxableAmount e)"
  define s4 where "s4 = f64_add s3 (referralAmount e)"
  have c: "companyAmount e = f64_sub r4 (referralAmount e)"
    using assms by (simp add: r1_def r2_def r3_def r4_def)
  have s: "six_amounts_sum e = f64_add s4 (companyAmount e)"
    by (simp add: six_amounts_sum_def s1_def s2_def s3_def s4_def)
  have steps: "residual_steps e @ sum_steps e
     = [profitLoss e - clickerAmount e, r1 - accHolderAmount e, r2 - brokerAmount e,
        r3 - taxableAmount e, r4 - referralAmount e,
        clickerAmount e + accHolderAmount e, s1 + brokerAmount e, s2 + taxableAmount e,
        s3 + referralAmount e, s4 + companyAmount e]"
    by (simp add: residual_steps_def sum_steps_def Let_def r1_def r2_def r3_def r4_def
        s1_def s2_def s3_def s4_def)
  have e1: "r1 = profitLoss e - clickerAmount e + rounding_error (profitLoss e - clickerAmount e)"
    unfolding r1_def by (rule sub)
  have e2: "r2 = r1 - accHolderAmount e + rounding_error (r1 - accHolderAmount e)"
    unfolding r2_def by (rule sub)
  have e3: "r3 = r2 - brokerAmount e + rounding_error (r2 - brokerAmount e)"
    unfolding r3_def by (rule sub)
  have e4: "r4 = r3 - taxableAmount e + rounding_error (r3 - taxableAmount e)"
    unfolding r4_def by (rule sub)
  have e5: "companyAmount e = r4 - referralAmount e + rounding_error (r4 - referralAmount e)"
    unfolding c by (rule sub)
  have g1: "s1 = clickerAmount e + accHolderAmount e
      + rounding_error (clickerAmount e + accHolderAmount e)"
    unfolding s1_def by (rule add)
  have g2: "s2 = s1 + brokerAmount e + rounding_error (s1 + brokerAmount e)"
    unfolding s2_def by (rule add)
  have g3: "s3 = s2 + taxableAmount e + rounding_error (s2 + taxableAmount e)"
    unfolding s3_def by (rule add)
  have g4: "s4 = s3 + referralAmount e + rounding_error (s3 + referralAmount e)"
    unfolding s4_def by (rule add)
  have g5: "six_amounts_sum e = s4 + companyAmount e + rounding_error (s4 + companyAmount e)"
    unfolding s by (rule add)
  show ?thesis
    unfolding steps using e1 e2 e3 e4 e5 g1 g2 g3 g4 g5 by simp
qed

lemma five_amounts_sum_error:
  assumes "companyAmount e = f64_sub (f64_sub (f64_sub (f64_sub (profitLoss e)
     (clickerAmount e)) (accHolderAmount e)) (taxableAmount e)) (referralAmount e)"
  shows "five_amounts_sum e - profitLoss e
     = sum_list (map rounding_error (residual_steps_v2 e @ sum_steps_v2 e))"
proof -
  have sub: "f64_sub x y = x - y + rounding_error (x - y)" for x y
    by (simp add: f64_sub_def rounding_error_def)
  have add: "f64_add x y = x + y + rounding_error (x + y)" for x y
    by (simp add: f64_add_def rounding_error_def)
  define r1 where "r1 = f64_sub (profitLoss e) (clickerAmount e)"
  define r2 where "r2 = f64_sub r1 (accHolderAmount e)"
  define r3 where "r3 = f64_sub r2 (taxableAmount e)"
  define s1 where "s1 = f64_add (clickerAmount e) (accHolderAmount e)"
  define s2 where "s2 = f64_add s1 (taxableAmount e)"
  define s3 where "s3 = f64_add s2 (referralAmount e)"
  have c: "companyAmount e = f64_sub r3 (referralAmount e)"
    using assms by (simp add: r1_def r2_def r3_def)
  have s: "five_amounts_sum e = f64_add s3 (companyAmount e)"
    by (simp add: five_amounts_sum_def s1_def s2_def s3_def)
  have steps: "residual_steps_v2 e @ sum_steps_v2 e
     = [profitLoss e - clickerAmount e, r1 - accHolderAmount e, r2 - taxableAmount e,
        r3 - referralAmount e,
        clickerAmount e + accHolderAmount e, s1 + taxableAmount e, s2 + referralAmount e,
        s3 + companyAmount e]"
    by (simp add: residual_steps_v2_def sum_steps_v2_def Let_def r1_def r2_def r3_def
        s1_def s2_def s3_def)
  have e1: "r1 = profitLoss e - clickerAmount e + rounding_error (profitLoss e - clickerAmount e)"
    unfolding r1_def by (rule sub)
  have e2: "r2 = r1 - accHolderAmount e + rounding_error (r1 - accHolderAmount e)"
    unfolding r2_def by (rule sub)
  have e3: "r3 = r2 - taxableAmount e + rounding_error (r2 - taxableAmount e)"
    unfolding r3_def by (rule sub)
  have e4: "companyAmount e = r3 - referralAmount e + rounding_error (r3 - referralAmount e)"
    unfolding c by (rule sub)
  have g1: "s1 = clickerAmount e + accHolderAmount e
      + rounding_error (clickerAmount e + accHolderAmount e)"
    unfolding s1_def by (rule add)
  have g2: "s2 = s1 + taxableAmount e + rounding_error (s1 + taxableAmount e)"
    unfolding s2_def by (rule add)
  have g3: "s3 = s2 + referralAmount e + rounding_error (s2 + referralAmount e)"
    unfolding s3_def by (rule add)
  have g4: "five_amounts_sum e = s3 + companyAmount e + rounding_error (s3 + companyAmount e)"
    unfolding s by (rule add)
  show ?thesis
    unfolding steps using e1 e2 e3 e4 g1 g2 g3 g4 by simp
qed

lemma rounding_errors_bound:
  "\<bar>sum_list (map rounding_error xs)\<bar> \<le> sum_list (map (\<lambda>x. ulp64 x / 2) xs)"
proof (induction xs)
  case Nil
  show ?case by simp
next
  case (Cons x xs)
  have "\<bar>sum_list (map rounding_error (x # xs))\<bar>
      \<le> \<bar>rounding_error x\<bar> + \<bar>sum_list (map rounding_error xs)\<bar>"
    by simp
  also have "\<dots> \<le> ulp64 x / 2 + sum_list (map (\<lambda>x. ulp64 x / 2) xs)"
    using rounding_error_half_ulp [of x] Cons.IH by (rule add_mono)
  finally show ?case by simp
qed

lemma rounding_errors_exact:
  "list_all exact64 xs \<Longrightarrow> sum_list (map rounding_error xs) = 0"
  by (induction xs) (simp_all add: exact64_def rounding_error_def)

text \<open>The sample data under rounding.\<close>

lemma sample_1501_binary64:
  "map_sum id profitLoss (calculateAmounts_binary64 (Some sample_account) (Some sample_user)
     (Some sample_broker) 10 (Inr (Some sample_agent)) sample_entry_1501) = Inr 501"
  "map_sum id companyAmount (calculateAmounts_binary64 (Some sample_account)
     (Some sample_user) (Some sample_broker) 10 (Inr (Some sample_agent)) sample_entry_1501)
     = Inr (8486470547826281 / 281474976710656)"
  "map_sum id six_amounts_sum (calculateAmounts_binary64 (Some sample_account)
     (Some sample_user) (Some sample_broker) 10 (Inr (Some sample_agent)) sample_entry_1501)
     = Inr (501 + 1 / 2 ^ 43)"
  by code_simp+

lemma sample_binary64:
  "calculateAmounts_binary64 (Some sample_account) (Some sample_user) (Some sample_broker) 10
     (Inr (Some sample_agent)) sample_entry = Inr sample_settled"
  "calculateAmounts_v2_binary64 (Some sample_account) (Some sample_user) 10
     (Inr (Some sample_agent)) sample_entry = Inr sample_settled_v2"
  by code_simp+

lemma sample_exact64:
  "list_all exact64 (residual_steps sample_settled @ sum_steps sample_settled)"
  "list_all exact64 (residual_steps_v2 sample_settled_v2 @ sum_steps_v2 sample_settled_v2)"
  by code_simp+

lemma sample_moderate:
  "moderate_inputs sample_account sample_user (Some sample_broker) 10 (Some sample_agent)
     sample_entry"
  "moderate_inputs sample_account sample_user None 10 (Some sample_agent) sample_entry"
  by (simp_all add: moderate_inputs_def moderate_def sample_defs)

text \<open>
  C2 as stated fails: on the sample data with an ending balance of 1501 the profit/loss is
  501 and the company amount is the binary64 number next above 30.15; the six amounts add
  up to 501 + 2 ^ -43, which JavaScript prints as 501.0000000000001.
\<close>

theorem residual_binary64_counterexample:
  "map_sum id profitLoss (calculateAmounts_binary64 (Some sample_account) (Some sample_user)
     (Some sample_broker) 10 (Inr (Some sample_agent)) sample_entry_1501) = Inr 501
   \<and> map_sum id companyAmount (calculateAmounts_binary64 (Some sample_account)
     (Some sample_user) (Some sample_broker) 10 (Inr (Some sample_agent)) sample_entry_1501)
     = Inr (8486470547826281 / 281474976710656)
   \<and> map_sum id six_amounts_sum (calculateAmounts_binary64 (Some sample_account)
     (Some sample_user) (Some sample_broker) 10 (Inr (Some sample_agent)) sample_entry_1501)
     = Inr (501 + 1 / 2 ^ 43)
   \<and> (501 + 1 / 2 ^ 43 :: rat) \<noteq> 501"
  using sample_1501_binary64 by simp

text \<open>
  C2, amended. On inputs of a magnitude of at most \<open>2 ^ 500\<close>, where no operation
  overflows, the company amount is the profit/loss minus the other five amounts,
  subtracted one after the other and each time rounded to binary64, with no clamping. The six amounts, added in binary64, differ from the
  profit/loss by exactly the rounding errors of those five subtractions and of the five
  additions, each error at most half a unit in the last place; they add up to the
  profit/loss exactly when those ten operations are exact. The same holds with four
  subtractions and four additions in the first document of part_002, which has no broker
  amount.
\<close>

theorem residual_within_rounding:
  "(calculateAmounts_binary64 (Some acc) (Some u) broker taxRate (Inr agentData) e = Inr e1
     \<and> moderate_inputs acc u broker taxRate agentData e \<longrightarrow>
       companyAmount e1 = f64_sub (f64_sub (f64_sub (f64_sub (f64_sub (profitLoss e1)
         (clickerAmount e1)) (accHolderAmount e1)) (brokerAmount e1)) (taxableAmount e1))
         (referralAmount e1)
       \<and> six_amounts_sum e1 - profitLoss e1
         = sum_list (map rounding_error (residual_steps e1 @ sum_steps e1))
       \<and> \<bar>six_amounts_sum e1 - profitLoss e1\<bar>
         \<le> sum_list (map (\<lambda>x. ulp64 x / 2) (residual_steps e1 @ sum_steps e1))
       \<and> (list_all exact64 (residual_steps e1 @ sum_steps e1) \<longrightarrow>
            six_amounts_sum e1 = profitLoss e1))
   \<and> (calculateAmounts_v2_binary64 (Some acc) (Some u) taxRate (Inr agentData) e = Inr e3
     \<and> moderate_inputs acc u None taxRate agentData e \<longrightarrow>
       companyAmount e3 = f64_sub (f64_sub (f64_sub (f64_sub (profitLoss e3)
         (clickerAmount e3)) (accHolderAmount e3)) (taxableAmount e3)) (referralAmount e3)
       \<and> five_amounts_sum e3 - profitLoss e3
         = sum_list (map rounding_error (residual_steps_v2 e3 @ sum_steps_v2 e3))
       \<and> \<bar>five_amounts_sum e3 - profitLoss e3\<bar>
         \<le> sum_list (map (\<lambda>x. ulp64 x / 2) (residual_steps_v2 e3 @ sum_steps_v2 e3))
       \<and> (list_all exact64 (residual_steps_v2 e3 @ sum_steps_v2 e3) \<longrightarrow>
            five_amounts_sum e3 = profitLoss e3))"
proof (intro conjI impI)
  assume a: "calculateAmounts_binary64 (Some acc) (Some u) broker taxRate (Inr agentData) e
      = Inr e1 \<and> moderate_inputs acc u broker taxRate agentData e"
  then have r: "calculateAmounts_binary64 (Some acc) (Some u) broker taxRate (Inr agentData) e
      = Inr e1" by simp
  note c = calculateAmounts_binary64_company [OF r]
  note d = six_amounts_sum_error [OF c]
  show "companyAmount e1 = f64_sub (f64_sub (f64_sub (f64_sub (f64_sub (profitLoss e1)
         (clickerAmount e1)) (accHolderAmount e1)) (brokerAmount e1)) (taxableAmount e1))
         (referralAmount e1)" by (rule c)
  show "six_amounts_sum e1 - profitLoss e1
         = sum_list (map rounding_error (residual_steps e1 @ sum_steps e1))" by (rule d)
  show "\<bar>six_amounts_sum e1 - profitLoss e1\<bar>
         \<le> sum_list (map (\<lambda>x. ulp64 x / 2) (residual_steps e1 @ sum_steps e1))"
    unfolding d by (rule rounding_errors_bound)
  assume "list_all exact64 (residual_steps e1 @ sum_steps e1)"
  from rounding_errors_exact [OF this] d
  show "six_amounts_sum e1 = profitLoss e1" by simp
next
  assume a: "calculateAmounts_v2_binary64 (Some acc) (Some u) taxRate (Inr agentData) e
      = Inr e3 \<and> moderate_inputs acc u None taxRate agentData e"
  then have r: "calculateAmounts_v2_binary64 (Some acc) (Some u) taxRate (Inr agentData) e
      = Inr e3" by simp
  note c = calculateAmounts_v2_binary64_company [OF r]
  note d = five_amounts_sum_error [OF c]
  show "companyAmount e3 = f64_sub (f64_sub (f64_sub (f64_sub (profitLoss e3)
         (clickerAmount e3)) (accHolderAmount e3)) (taxableAmount e3)) (referralAmount e3)"
    by (rule c)
  show "five_amounts_sum e3 - profitLoss e3
         = sum_list (map rounding_error (residual_steps_v2 e3 @ sum_steps_v2 e3))" by (rule d)
  show "\<bar>five_amounts_sum e3 - profitLoss e3\<bar>
         \<le> sum_list (map (\<lambda>x. ulp64 x / 2) (residual_steps_v2 e3 @ sum_steps_v2 e3))"
    unfolding d by (rule rounding_errors_bound)
  assume "list_all exact64 (residual_steps_v2 e3 @ sum_steps_v2 e3)"
  from rounding_errors_exact [OF this] d
  show "five_amounts_sum e3 = profitLoss e3" by simp
qed

theorem residual_within_rounding_witness:
  "calculateAmounts_binary64 (Some sample_account) (Some sample_user) (Some sample_broker) 10
     (Inr (Some sample_agent)) sample_entry = Inr sample_settled
   \<and> moderate_inputs sample_account sample_user (Some sample_broker) 10 (Some sample_agent)
     sample_entry
   \<and> list_all exact64 (residual_steps sample_settled @ sum_steps sample_settled)
   \<and> six_amounts_sum sample_settled = profitLoss sample_settled
   \<and> profitLoss sample_settled = 500
   \<and> calculateAmounts_v2_binary64 (Some sample_account) (Some sample_user) 10
     (Inr (Some sample_agent)) sample_entry = Inr sample_settled_v2
   \<and> moderate_inputs sample_account sample_user None 10 (Some sample_agent) sample_entry
   \<and> list_all exact64 (residual_steps_v2 sample_settled_v2 @ sum_steps_v2 sample_settled_v2)
   \<and> five_amounts_sum sample_settled_v2 = profitLoss sample_settled_v2
   \<and> profitLoss sample_settled_v2 = 650"
proof -
  have six: "six_amounts_sum sample_settled = profitLoss sample_settled"
    using residual_within_rounding [where acc = sample_account and u = sample_user
        and broker = "Some sample_broker" and taxRate = 10
        and agentData = "Some sample_agent" and e = sample_entry
        and ?e1.0 = sample_settled, THEN conjunct1]
      sample_binary64(1) sample_moderate(1) sample_exact64(1)
    by blast
  have five: "five_amounts_sum sample_settled_v2 = profitLoss sample_settled_v2"
    using residual_within_rounding [where acc = sample_account and u = sample_user
        and taxRate = 10 and agentData = "Some sample_agent" and e = sample_entry
        and ?e3.0 = sample_settled_v2, THEN conjunct2]
      sample_binary64(2) sample_moderate(2) sample_exact64(2)
    by blast
  have pl: "profitLoss sample_settled = 500" "profitLoss sample_settled_v2 = 650"
    by (simp_all add: sample_settled_def sample_settled_v2_def)
  from six five pl sample_binary64 sample_moderate sample_exact64
  show ?thesis by blast
qed

subsection \<open>The broker\<close>

text \<open>
  C3. A broker configuration is present when the component holds a broker and the account
  names one. Without it the broker amount is \<open>0\<close>; with it the amount is
  \<open>profitLoss * commissionPercent / 100\<close> for \<open>percentage\<close>, \<open>flatCommission\<close> for
  \<open>flat\<close> and the sum of the two for \<open>both\<close> (an absent percentage or flat commission
  counting as \<open>0\<close>), in \<open>calculateAmounts\<close> and in \<open>calculateEditingAmounts\<close>. For one
  entry, account and broker values, the amount under \<open>both\<close> is the amount under
  \<open>percentage\<close> plus the amount under \<open>flat\<close>.
\<close>

theorem broker_amount_by_type:
  "(calculateAmounts (Some acc) (Some u) broker taxRate agent e = Inr e1 \<longrightarrow>
      (broker = None \<or> \<not> truthy_str (brokerId acc) \<longrightarrow> brokerAmount e1 = 0)
      \<and> (broker = Some b \<and> truthy_str (brokerId acc) \<and> commissionType b = Percentage \<longrightarrow>
           brokerAmount e1 = profitLoss e1 * or_zero (broker_commissionPercentage b) / 100)
      \<and> (broker = Some b \<and> truthy_str (brokerId acc) \<and> commissionType b = Flat \<longrightarrow>
           brokerAmount e1 = or_zero (broker_flatCommission b))
      \<and> (broker = Some b \<and> truthy_str (brokerId acc) \<and> commissionType b = Both \<longrightarrow>
           brokerAmount e1 = profitLoss e1 * or_zero (broker_commissionPercentage b) / 100
             + or_zero (broker_flatCommission b)))
   \<and> (calculateEditingAmounts (Some acc) (Some u) broker taxRate agent (Some e) = Inr (Some e2) \<longrightarrow>
      (broker = None \<or> \<not> truthy_str (brokerId acc) \<longrightarrow> brokerAmount e2 = 0)
      \<and> (broker = Some b \<and> truthy_str (brokerId acc) \<and> commissionType b = Percentage \<longrightarrow>
           brokerAmount e2 = profitLoss e2 * or_zero (broker_commissionPercentage b) / 100)
      \<and> (broker = Some b \<and> truthy_str (brokerId acc) \<and> commissionType b = Flat \<longrightarrow>
           brokerAmount e2 = or_zero (broker_flatCommission b))
      \<and> (broker = Some b \<and> truthy_str (brokerId acc) \<and> commissionType b = Both \<longrightarrow>
           brokerAmount e2 = profitLoss e2 * or_zero (broker_commissionPercentage b) / 100
             + or_zero (broker_flatCommission b)))
   \<and> (calculateAmounts (Some acc) (Some u) (Some (b\<lparr>commissionType := Both\<rparr>)) taxRate agent e
         = Inr e_both
       \<and> calculateAmounts (Some acc) (Some u) (Some (b\<lparr>commissionType := Percentage\<rparr>)) taxRate agent e
         = Inr e_percentage
       \<and> calculateAmounts (Some acc) (Some u) (Some (b\<lparr>commissionType := Flat\<rparr>)) taxRate agent e
         = Inr e_flat \<longrightarrow>
      profitLoss e_both = profitLoss e_percentage \<and> profitLoss e_both = profitLoss e_flat
      \<and> brokerAmount e_both = brokerAmount e_percentage + brokerAmount e_flat)"
proof (intro conjI)
  show "calculateAmounts (Some acc) (Some u) broker taxRate agent e = Inr e1 \<longrightarrow>
      (broker = None \<or> \<not> truthy_str (brokerId acc) \<longrightarrow> brokerAmount e1 = 0)
      \<and> (broker = Some b \<and> truthy_str (brokerId acc) \<and> commissionType b = Percentage \<longrightarrow>
           brokerAmount e1 = profitLoss e1 * or_zero (broker_commissionPercentage b) / 100)
      \<and> (broker = Some b \<and> truthy_str (brokerId acc) \<and> commissionType b = Flat \<longrightarrow>
           brokerAmount e1 = or_zero (broker_flatCommission b))
      \<and> (broker = Some b \<and> truthy_str (brokerId acc) \<and> commissionType b = Both \<longrightarrow>
           brokerAmount e1 = profitLoss e1 * or_zero (broker_commissionPercentage b) / 100
             + or_zero (broker_flatCommission b))"
  proof
    assume r: "calculateAmounts (Some acc) (Some u) broker taxRate agent e = Inr e1"
    from calculateAmounts_agent [OF r] obtain ad where "agent = Inr ad" ..
    with r have "calculateAmounts (Some acc) (Some u) broker taxRate (Inr ad) e = Inr e1"
      by simp
    from calculateAmounts_fields(4) [OF this] show
     "(broker = None \<or> \<not> truthy_str (brokerId acc) \<longrightarrow> brokerAmount e1 = 0)
      \<and> (broker = Some b \<and> truthy_str (brokerId acc) \<and> commissionType b = Percentage \<longrightarrow>
           brokerAmount e1 = profitLoss e1 * or_zero (broker_commissionPercentage b) / 100)
      \<and> (broker = Some b \<and> truthy_str (brokerId acc) \<and> commissionType b = Flat \<longrightarrow>
           brokerAmount e1 = or_zero (broker_flatCommission b))
      \<and> (broker = Some b \<and> truthy_str (brokerId acc) \<and> commissionType b = Both \<longrightarrow>
           brokerAmount e1 = profitLoss e1 * or_zero (broker_commissionPercentage b) / 100
             + or_zero (broker_flatCommission b))"
      by (auto split: option.splits)
  qed
next
  show "calculateEditingAmounts (Some acc) (Some u) broker taxRate agent (Some e) = Inr (Some e2) \<longrightarrow>
      (broker = None \<or> \<not> truthy_str (brokerId acc) \<longrightarrow> brokerAmount e2 = 0)
      \<and> (broker = Some b \<and> truthy_str (brokerId acc) \<and> commissionType b = Percentage \<longrightarrow>
           brokerAmount e2 = profitLoss e2 * or_zero (broker_commissionPercentage b) / 100)
      \<and> (broker = Some b \<and> truthy_str (brokerId acc) \<and> commissionType b = Flat \<longrightarrow>
           brokerAmount e2 = or_zero (broker_flatCommission b))
      \<and> (broker = Some b \<and> truthy_str (brokerId acc) \<and> commissionType b = Both \<longrightarrow>
           brokerAmount e2 = profitLoss e2 * or_zero (broker_commissionPercentage b) / 100
             + or_zero (broker_flatCommission b))"
  proof
    assume r: "calculateEditingAmounts (Some acc) (Some u) broker taxRate agent (Some e) = Inr (Some e2)"
    from calculateEditingAmounts_agent [OF r] obtain ad where "agent = Inr ad" ..
    with r have "calculateEditingAmounts (Some acc) (Some u) broker taxRate (Inr ad) (Some e)
       = Inr (Some e2)"
      by simp
    from calculateEditingAmounts_fields(4) [OF this] show
     "(broker = None \<or> \<not> truthy_str (brokerId acc) \<longrightarrow> brokerAmount e2 = 0)
      \<and> (broker = Some b \<and> truthy_str (brokerId acc) \<and> commissionType b = Percentage \<longrightarrow>
           brokerAmount e2 = profitLoss e2 * or_zero (broker_commissionPercentage b) / 100)
      \<and> (broker = Some b \<and> truthy_str (brokerId acc) \<and> commissionType b = Flat \<longrightarrow>
           brokerAmount e2 = or_zero (broker_flatCommission b))
      \<and> (broker = Some b \<and> truthy_str (brokerId acc) \<and> commissionType b = Both \<longrightarrow>
           brokerAmount e2 = profitLoss e2 * or_zero (broker_commissionPercentage b) / 100
             + or_zero (broker_flatCommission b))"
      by (auto split: option.splits)
  qed
next
  show "calculateAmounts (Some acc) (Some u) (Some (b\<lparr>commissionType := Both\<rparr>)) taxRate agent e
         = Inr e_both
       \<and> calculateAmounts (Some acc) (Some u) (Some (b\<lparr>commissionType := Percentage\<rparr>)) taxRate agent e
         = Inr e_percentage
       \<and> calculateAmounts (Some acc) (Some u) (Some (b\<lparr>commissionType := Flat\<rparr>)) taxRate agent e
         = Inr e_flat \<longrightarrow>
      profitLoss e_both = profitLoss e_percentage \<and> profitLoss e_both = profitLoss e_flat
      \<and> brokerAmount e_both = brokerAmount e_percentage + brokerAmount e_flat"
  proof
    assume r: "calculateAmounts (Some acc) (Some u) (Some (b\<lparr>commissionType := Both\<rparr>)) taxRate agent e
         = Inr e_both
       \<and> calculateAmounts (Some acc) (Some u) (Some (b\<lparr>commissionType := Percentage\<rparr>)) taxRate agent e
         = Inr e_percentage
       \<and> calculateAmounts (Some acc) (Some u) (Some (b\<lparr>commissionType := Flat\<rparr>)) taxRate agent e
         = Inr e_flat"
    then have rb: "calculateAmounts (Some acc) (Some u) (Some (b\<lparr>commissionType := Both\<rparr>))
        taxRate agent e = Inr e_both" by simp
    from calculateAmounts_agent [OF rb] obtain ad where ad: "agent = Inr ad" ..
    from r ad have b: "calculateAmounts (Some acc) (Some u) (Some (b\<lparr>commissionType := Both\<rparr>))
        taxRate (Inr ad) e = Inr e_both"
      and p: "calculateAmounts (Some acc) (Some u) (Some (b\<lparr>commissionType := Percentage\<rparr>))
        taxRate (Inr ad) e = Inr e_percentage"
      and f: "calculateAmounts (Some acc) (Some u) (Some (b\<lparr>commissionType := Flat\<rparr>))
        taxRate (Inr ad) e = Inr e_flat"
      by simp_all
    have pl: "profitLoss e_both = profitLoss e_percentage" "profitLoss e_both = profitLoss e_flat"
      using calculateAmounts_fields(1) [OF b] calculateAmounts_fields(1) [OF p]
        calculateAmounts_fields(1) [OF f] by simp_all
    have "brokerAmount e_both = brokerAmount e_percentage + brokerAmount e_flat"
      using calculateAmounts_fields(4) [OF b] calculateAmounts_fields(4) [OF p]
        calculateAmounts_fields(4) [OF f] pl by simp
    with pl show "profitLoss e_both = profitLoss e_percentage \<and> profitLoss e_both = profitLoss e_flat
      \<and> brokerAmount e_both = brokerAmount e_percentage + brokerAmount e_flat" by simp
  qed
qed

theorem broker_amount_by_type_witness:
  "calculateAmounts (Some sample_account) (Some sample_user) None 10
     (Inr (Some sample_agent)) sample_entry = Inr sample_settled_no_broker
   \<and> brokerAmount sample_settled_no_broker = 0
   \<and> calculateAmounts (Some (sample_account\<lparr>brokerId := None\<rparr>)) (Some sample_user)
     (Some sample_broker) 10 (Inr (Some sample_agent)) sample_entry
     = Inr sample_settled_no_broker
   \<and> calculateAmounts (Some sample_account) (Some sample_user)
     (Some (sample_broker\<lparr>commissionType := Percentage\<rparr>)) 10
     (Inr (Some sample_agent)) sample_entry = Inr sample_settled_percentage
   \<and> brokerAmount sample_settled_percentage = 500 * 10 / 100
   \<and> calculateAmounts (Some sample_account) (Some sample_user)
     (Some (sample_broker\<lparr>commissionType := Flat\<rparr>)) 10
     (Inr (Some sample_agent)) sample_entry = Inr sample_settled_flat
   \<and> brokerAmount sample_settled_flat = 25
   \<and> calculateAmounts (Some sample_account) (Some sample_user)
     (Some (sample_broker\<lparr>commissionType := Both\<rparr>)) 10
     (Inr (Some sample_agent)) sample_entry = Inr sample_settled
   \<and> calculateEditingAmounts (Some sample_account) (Some sample_user) (Some sample_broker) 10
     (Inr (Some sample_agent)) (Some sample_entry) = Inr (Some sample_settled)
   \<and> brokerAmount sample_settled = 500 * 10 / 100 + 25
   \<and> brokerAmount sample_settled
       = brokerAmount sample_settled_percentage + brokerAmount sample_settled_flat"
proof -
  have linked: "truthy_str (brokerId sample_account)"
    by (simp add: sample_account_def truthy_str_def)
  have unlinked: "\<not> truthy_str (brokerId (sample_account\<lparr>brokerId := None\<rparr>))"
    by (simp add: truthy_str_def)
  have amounts: "profitLoss sample_settled = 500" "profitLoss sample_settled_percentage = 500"
    "or_zero (broker_commissionPercentage sample_broker) = 10"
    "or_zero (broker_flatCommission sample_broker) = 25"
    by (simp_all add: sample_defs)
  have none: "brokerAmount sample_settled_no_broker = 0"
    using broker_amount_by_type [where acc = sample_account and u = sample_user
        and broker = None and taxRate = 10 and agent = "Inr (Some sample_agent)"
        and e = sample_entry and ?e1.0 = sample_settled_no_broker, THEN conjunct1]
      sample_no_broker_calculateAmounts
    by simp
  have no_link: "brokerAmount sample_settled_no_broker = 0"
    using broker_amount_by_type [where acc = "sample_account\<lparr>brokerId := None\<rparr>"
        and u = sample_user and broker = "Some sample_broker" and taxRate = 10
        and agent = "Inr (Some sample_agent)" and e = sample_entry
        and ?e1.0 = sample_settled_no_broker, THEN conjunct1]
      sample_unlinked_calculateAmounts unlinked
    by simp
  have percentage: "brokerAmount sample_settled_percentage = 500 * 10 / 100"
    using broker_amount_by_type [where acc = sample_account and u = sample_user
        and broker = "Some (sample_broker\<lparr>commissionType := Percentage\<rparr>)"
        and taxRate = 10 and agent = "Inr (Some sample_agent)" and e = sample_entry
        and ?e1.0 = sample_settled_percentage
        and b = "sample_broker\<lparr>commissionType := Percentage\<rparr>", THEN conjunct1]
      sample_percentage_calculateAmounts linked amounts
    by simp
  have flat: "brokerAmount sample_settled_flat = 25"
    using broker_amount_by_type [where acc = sample_account and u = sample_user
        and broker = "Some (sample_broker\<lparr>commissionType := Flat\<rparr>)"
        and taxRate = 10 and agent = "Inr (Some sample_agent)" and e = sample_entry
        and ?e1.0 = sample_settled_flat
        and b = "sample_broker\<lparr>commissionType := Flat\<rparr>", THEN conjunct1]
      sample_flat_calculateAmounts linked amounts
    by simp
  have both: "brokerAmount sample_settled = 500 * 10 / 100 + 25"
    using broker_amount_by_type [where acc = sample_account and u = sample_user
        and broker = "Some (sample_broker\<lparr>commissionType := Both\<rparr>)"
        and taxRate = 10 and agent = "Inr (Some sample_agent)" and e = sample_entry
        and ?e1.0 = sample_settled
        and b = "sample_broker\<lparr>commissionType := Both\<rparr>", THEN conjunct1]
      sample_both_calculateAmounts linked amounts
    by simp
  have editing: "brokerAmount sample_settled = 500 * 10 / 100 + 25"
    using broker_amount_by_type [where acc = sample_account and u = sample_user
        and broker = "Some (sample_broker\<lparr>commissionType := Both\<rparr>)"
        and taxRate = 10 and agent = "Inr (Some sample_agent)" and e = sample_entry
        and ?e2.0 = sample_settled
        and b = "sample_broker\<lparr>commissionType := Both\<rparr>",
        THEN conjunct2, THEN conjunct1]
      sample_calculateEditingAmounts linked amounts
    by (simp add: sample_broker_def)
  have switch: "brokerAmount sample_settled
       = brokerAmount sample_settled_percentage + brokerAmount sample_settled_flat"
    using broker_amount_by_type [where acc = sample_account and u = sample_user
        and taxRate = 10 and agent = "Inr (Some sample_agent)" and e = sample_entry
        and b = sample_broker and e_both = sample_settled
        and e_percentage = sample_settled_percentage and e_flat = sample_settled_flat,
        THEN conjunct2, THEN conjunct2]
      sample_both_calculateAmounts sample_percentage_calculateAmounts
      sample_flat_calculateAmounts
    by simp
  from none no_link percentage flat both editing switch show ?thesis
    using sample_no_broker_calculateAmounts sample_unlinked_calculateAmounts
      sample_percentage_calculateAmounts sample_flat_calculateAmounts
      sample_both_calculateAmounts sample_calculateEditingAmounts
    by simp
qed

subsection \<open>The referral\<close>

text \<open>
  C5 as stated fails: a referral percentage of minus 5 is not greater than \<open>0\<close>, yet the
  referral amount on a profit of 500 is minus 25, not \<open>0\<close>. The source tests the percentage
  for truthiness, and a negative number is truthy.
\<close>

theorem referral_negative_counterexample:
  "calculateAmounts (Some (sample_account\<lparr>referralPercentage := Some (- 5)\<rparr>))
     (Some sample_user) (Some sample_broker) 10 (Inr (Some sample_agent)) sample_entry
     = Inr sample_settled_negative_referral
   \<and> \<not> (0 :: rat) < - 5
   \<and> profitLoss sample_settled_negative_referral = 500
   \<and> referralAmount sample_settled_negative_referral = - 25
   \<and> referralAmount sample_settled_negative_referral \<noteq> 0"
  using sample_negative_referral_calculateAmounts
  by (simp add: sample_settled_negative_referral_def sample_settled_def)

text \<open>
  C5, amended. The referral amount is \<open>profitLoss * referralPercent / 100\<close> when the
  referral percentage of the account is present and not \<open>0\<close>, positive or negative, and
  \<open>0\<close> when it is absent or \<open>0\<close>; in \<open>calculateAmounts\<close>, in \<open>calculateEditingAmounts\<close>
  and in the \<open>calculateAmounts\<close> of the first document of part_002.
\<close>

theorem referral_amount_truthy:
  "(calculateAmounts (Some acc) (Some u) broker taxRate agent e = Inr e1 \<longrightarrow>
      (referralPercentage acc = Some rp \<and> rp \<noteq> 0 \<longrightarrow>
         referralAmount e1 = profitLoss e1 * rp / 100)
      \<and> (referralPercentage acc = None \<or> referralPercentage acc = Some 0 \<longrightarrow>
         referralAmount e1 = 0))
   \<and> (calculateEditingAmounts (Some acc) (Some u) broker taxRate agent (Some e) = Inr (Some e2) \<longrightarrow>
      (referralPercentage acc = Some rp \<and> rp \<noteq> 0 \<longrightarrow>
         referralAmount e2 = profitLoss e2 * rp / 100)
      \<and> (referralPercentage acc = None \<or> referralPercentage acc = Some 0 \<longrightarrow>
         referralAmount e2 = 0))
   \<and> (calculateAmounts_v2 (Some acc) (Some u) taxRate agent e = Inr e3 \<longrightarrow>
      (referralPercentage acc = Some rp \<and> rp \<noteq> 0 \<longrightarrow>
         referralAmount e3 = profitLoss e3 * rp / 100)
      \<and> (referralPercentage acc = None \<or> referralPercentage acc = Some 0 \<longrightarrow>
         referralAmount e3 = 0))"
proof (intro conjI)
  show "calculateAmounts (Some acc) (Some u) broker taxRate agent e = Inr e1 \<longrightarrow>
      (referralPercentage acc = Some rp \<and> rp \<noteq> 0 \<longrightarrow>
         referralAmount e1 = profitLoss e1 * rp / 100)
      \<and> (referralPercentage acc = None \<or> referralPercentage acc = Some 0 \<longrightarrow>
         referralAmount e1 = 0)"
  proof
    assume r: "calculateAmounts (Some acc) (Some u) broker taxRate agent e = Inr e1"
    from calculateAmounts_agent [OF r] obtain ad where "agent = Inr ad" ..
    with r have "calculateAmounts (Some acc) (Some u) broker taxRate (Inr ad) e = Inr e1"
      by simp
    from calculateAmounts_fields(6) [OF this]
    show "(referralPercentage acc = Some rp \<and> rp \<noteq> 0 \<longrightarrow>
         referralAmount e1 = profitLoss e1 * rp / 100)
      \<and> (referralPercentage acc = None \<or> referralPercentage acc = Some 0 \<longrightarrow>
         referralAmount e1 = 0)"
      by auto
  qed
next
  show "calculateEditingAmounts (Some acc) (Some u) broker taxRate agent (Some e) = Inr (Some e2) \<longrightarrow>
      (referralPercentage acc = Some rp \<and> rp \<noteq> 0 \<longrightarrow>
         referralAmount e2 = profitLoss e2 * rp / 100)
      \<and> (referralPercentage acc = None \<or> referralPercentage acc = Some 0 \<longrightarrow>
         referralAmount e2 = 0)"
  proof
    assume r: "calculateEditingAmounts (Some acc) (Some u) broker taxRate agent (Some e)
      = Inr (Some e2)"
    from calculateEditingAmounts_agent [OF r] obtain ad where "agent = Inr ad" ..
    with r have "calculateEditingAmounts (Some acc) (Some u) broker taxRate (Inr ad) (Some e)
      = Inr (Some e2)"
      by simp
    from calculateEditingAmounts_fields(6) [OF this]
    show "(referralPercentage acc = Some rp \<and> rp \<noteq> 0 \<longrightarrow>
         referralAmount e2 = profitLoss e2 * rp / 100)
      \<and> (referralPercentage acc = None \<or> referralPercentage acc = Some 0 \<longrightarrow>
         referralAmount e2 = 0)"
      by auto
  qed
next
  show "calculateAmounts_v2 (Some acc) (Some u) taxRate agent e = Inr e3 \<longrightarrow>
      (referralPercentage acc = Some rp \<and> rp \<noteq> 0 \<longrightarrow>
         referralAmount e3 = profitLoss e3 * rp / 100)
      \<and> (referralPercentage acc = None \<or> referralPercentage acc = Some 0 \<longrightarrow>
         referralAmount e3 = 0)"
  proof
    assume r: "calculateAmounts_v2 (Some acc) (Some u) taxRate agent e = Inr e3"
    from calculateAmounts_v2_agent [OF r] obtain ad where "agent = Inr ad" ..
    with r have "calculateAmounts_v2 (Some acc) (Some u) taxRate (Inr ad) e = Inr e3"
      by simp
    from calculateAmounts_v2_fields(5) [OF this]
    show "(referralPercentage acc = Some rp \<and> rp \<noteq> 0 \<longrightarrow>
         referralAmount e3 = profitLoss e3 * rp / 100)
      \<and> (referralPercentage acc = None \<or> referralPercentage acc = Some 0 \<longrightarrow>
         referralAmount e3 = 0)"
      by auto
  qed
qed

theorem referral_amount_truthy_witness:
  "calculateAmounts (Some sample_account) (Some sample_user) (Some sample_broker) 10
     (Inr (Some sample_agent)) sample_entry = Inr sample_settled
   \<and> referralAmount sample_settled = 500 * 5 / 100
   \<and> calculateAmounts (Some (sample_account\<lparr>referralPercentage := Some (- 5)\<rparr>))
     (Some sample_user) (Some sample_broker) 10 (Inr (Some sample_agent)) sample_entry
     = Inr sample_settled_negative_referral
   \<and> referralAmount sample_settled_negative_referral = 500 * (- 5) / 100
   \<and> calculateAmounts (Some (sample_account\<lparr>referralPercentage := None\<rparr>))
     (Some sample_user) (Some sample_broker) 10 (Inr (Some sample_agent)) sample_entry
     = Inr sample_settled_no_referral
   \<and> calculateAmounts (Some (sample_account\<lparr>referralPercentage := Some 0\<rparr>))
     (Some sample_user) (Some sample_broker) 10 (Inr (Some sample_agent)) sample_entry
     = Inr sample_settled_no_referral
   \<and> referralAmount sample_settled_no_referral = 0
   \<and> calculateEditingAmounts (Some sample_account) (Some sample_user) (Some sample_broker) 10
     (Inr (Some sample_agent)) (Some sample_entry) = Inr (Some sample_settled)
   \<and> calculateAmounts_v2 (Some sample_account) (Some sample_user) 10
     (Inr (Some sample_agent)) sample_entry = Inr sample_settled_v2
   \<and> referralAmount sample_settled_v2 = 650 * 5 / 100"
proof -
  have amounts: "profitLoss sample_settled = 500"
    "profitLoss sample_settled_negative_referral = 500"
    "profitLoss sample_settled_v2 = 650"
    "referralPercentage sample_account = Some 5"
    by (simp_all add: sample_defs sample_settled_negative_referral_def)
  have positive: "referralAmount sample_settled = 500 * 5 / 100"
    using referral_amount_truthy [where acc = sample_account and u = sample_user
        and broker = "Some sample_broker" and taxRate = 10
        and agent = "Inr (Some sample_agent)" and e = sample_entry
        and ?e1.0 = sample_settled and rp = 5, THEN conjunct1]
      sample_calculateAmounts amounts
    by simp
  have negative: "referralAmount sample_settled_negative_referral = 500 * (- 5) / 100"
    using referral_amount_truthy [where acc = "sample_account\<lparr>referralPercentage := Some (- 5)\<rparr>"
        and u = sample_user and broker = "Some sample_broker" and taxRate = 10
        and agent = "Inr (Some sample_agent)" and e = sample_entry
        and ?e1.0 = sample_settled_negative_referral and rp = "- 5", THEN conjunct1]
      sample_negative_referral_calculateAmounts amounts
    by simp
  have absent: "referralAmount sample_settled_no_referral = 0"
    using referral_amount_truthy [where acc = "sample_account\<lparr>referralPercentage := None\<rparr>"
        and u = sample_user and broker = "Some sample_broker" and taxRate = 10
        and agent = "Inr (Some sample_agent)" and e = sample_entry
        and ?e1.0 = sample_settled_no_referral, THEN conjunct1]
      sample_no_referral_calculateAmounts
    by simp
  have zero: "referralAmount sample_settled_no_referral = 0"
    using referral_amount_truthy [where acc = "sample_account\<lparr>referralPercentage := Some 0\<rparr>"
        and u = sample_user and broker = "Some sample_broker" and taxRate = 10
        and agent = "Inr (Some sample_agent)" and e = sample_entry
        and ?e1.0 = sample_settled_no_referral, THEN conjunct1]
      sample_zero_referral_calculateAmounts
    by simp
  have editing: "referralAmount sample_settled = 500 * 5 / 100"
    using referral_amount_truthy [where acc = sample_account and u = sample_user
        and broker = "Some sample_broker" and taxRate = 10
        and agent = "Inr (Some sample_agent)" and e = sample_entry
        and ?e2.0 = sample_settled and rp = 5, THEN conjunct2, THEN conjunct1]
      sample_calculateEditingAmounts amounts
    by simp
  have earlier: "referralAmount sample_settled_v2 = 650 * 5 / 100"
    using referral_amount_truthy [where acc = sample_account and u = sample_user
        and taxRate = 10 and agent = "Inr (Some sample_agent)" and e = sample_entry
        and ?e3.0 = sample_settled_v2 and rp = 5, THEN conjunct2, THEN conjunct2]
      sample_calculateAmounts_v2 amounts
    by simp
  from positive negative absent zero editing earlier show ?thesis
    using sample_calculateAmounts sample_negative_referral_calculateAmounts
      sample_no_referral_calculateAmounts sample_zero_referral_calculateAmounts
      sample_calculateEditingAmounts sample_calculateAmounts_v2
    by simp
qed

subsection \<open>An unchanged balance\<close>

text \<open>
  C6. With the starting balance equal to the ending balance, no refill, no withdrawal, no
  promo amount and every commission percentage \<open>0\<close>, the profit/loss is \<open>0\<close> and so are
  the clicker, tax and referral amounts; the account holder amount is the agent's flat
  commission, the broker amount is the broker's flat commission where the commission type
  has one (\<open>flat\<close> and \<open>both\<close>), and the company amount is the residual, minus those two.
\<close>

theorem zero_input_identity:
  assumes "calculateAmounts (Some acc) (Some u) broker taxRate (Inr agentData) e = Inr e1"
    and "or_zero (startingBalance e) = or_zero (endingBalance e)"
    and "or_zero (refillAmount e) = 0" and "or_zero (withdrawal e) = 0"
    and "or_zero (promoAmount acc) = 0"
    and "or_zero (percentage u) = 0"
    and "(case agentData of None \<Rightarrow> 0 | Some ad \<Rightarrow> or_zero (commissionPercentage ad)) = 0"
    and "(case broker of None \<Rightarrow> 0 | Some b \<Rightarrow> or_zero (broker_commissionPercentage b)) = 0"
    and "or_zero (referralPercentage acc) = 0"
  shows "profitLoss e1 = 0 \<and> clickerAmount e1 = 0 \<and> taxableAmount e1 = 0
    \<and> referralAmount e1 = 0
    \<and> accHolderAmount e1 = (case agentData of None \<Rightarrow> 0 | Some ad \<Rightarrow> or_zero (flatCommission ad))
    \<and> brokerAmount e1 = (case broker of None \<Rightarrow> 0
        | Some b \<Rightarrow> if truthy_str (brokerId acc) then
            (case commissionType b of
               Percentage \<Rightarrow> 0
             | Flat \<Rightarrow> or_zero (broker_flatCommission b)
             | Both \<Rightarrow> or_zero (broker_flatCommission b))
          else 0)
    \<and> companyAmount e1 = 0 - accHolderAmount e1 - brokerAmount e1"
proof -
  note f = calculateAmounts_fields [OF assms(1)]
  have pl: "profitLoss e1 = 0"
    using f(1) assms(2-5) by simp
  have clicker: "clickerAmount e1 = 0" using f(2) pl by simp
  have tax: "taxableAmount e1 = 0" using f(5) pl by simp
  have referral: "referralAmount e1 = 0"
    using f(6) pl by (simp split: option.splits)
  have holder: "accHolderAmount e1
      = (case agentData of None \<Rightarrow> 0 | Some ad \<Rightarrow> or_zero (flatCommission ad))"
    using f(3) pl by (simp split: option.splits)
  have brokerAmt: "brokerAmount e1 = (case broker of None \<Rightarrow> 0
        | Some b \<Rightarrow> if truthy_str (brokerId acc) then
            (case commissionType b of
               Percentage \<Rightarrow> 0
             | Flat \<Rightarrow> or_zero (broker_flatCommission b)
             | Both \<Rightarrow> or_zero (broker_flatCommission b))
          else 0)"
    using f(4) pl by (simp split: option.splits commission_type.splits)
  have company: "companyAmount e1 = 0 - accHolderAmount e1 - brokerAmount e1"
    using f(7) pl clicker tax referral by simp
  from pl clicker tax referral holder brokerAmt company show ?thesis by blast
qed

theorem zero_input_identity_witness:
  "calculateAmounts (Some flat_only_account) (Some flat_only_user) (Some flat_only_broker) 0
     (Inr (Some flat_only_agent)) flat_day_entry = Inr flat_day_settled
   \<and> or_zero (startingBalance flat_day_entry) = or_zero (endingBalance flat_day_entry)
   \<and> or_zero (refillAmount flat_day_entry) = 0 \<and> or_zero (withdrawal flat_day_entry) = 0
   \<and> or_zero (promoAmount flat_only_account) = 0
   \<and> or_zero (percentage flat_only_user) = 0
   \<and> or_zero (commissionPercentage flat_only_agent) = 0
   \<and> or_zero (broker_commissionPercentage flat_only_broker) = 0
   \<and> or_zero (referralPercentage flat_only_account) = 0
   \<and> profitLoss flat_day_settled = 0 \<and> clickerAmount flat_day_settled = 0
   \<and> taxableAmount flat_day_settled = 0 \<and> referralAmount flat_day_settled = 0
   \<and> accHolderAmount flat_day_settled = 20 \<and> brokerAmount flat_day_settled = 25
   \<and> companyAmount flat_day_settled = 0 - 20 - 25"
proof -
  have h: "or_zero (startingBalance flat_day_entry) = or_zero (endingBalance flat_day_entry)"
    "or_zero (refillAmount flat_day_entry) = 0" "or_zero (withdrawal flat_day_entry) = 0"
    "or_zero (promoAmount flat_only_account) = 0"
    "or_zero (percentage flat_only_user) = 0"
    "(case Some flat_only_agent of None \<Rightarrow> 0
      | Some ad \<Rightarrow> or_zero (commissionPercentage ad)) = 0"
    "(case Some flat_only_broker of None \<Rightarrow> 0
      | Some b \<Rightarrow> or_zero (broker_commissionPercentage b)) = 0"
    "or_zero (referralPercentage flat_only_account) = 0"
    by (simp_all add: flat_only_defs)
  have v: "truthy_str (brokerId flat_only_account)" "commissionType flat_only_broker = Both"
    "or_zero (flatCommission flat_only_agent) = 20"
    "or_zero (broker_flatCommission flat_only_broker) = 25"
    by (simp_all add: flat_only_defs)
  from zero_input_identity [OF flat_day_calculateAmounts h] v h
  show ?thesis using flat_day_calculateAmounts by simp
qed

subsection \<open>Totality\<close>

text \<open>Helpers: the computation completes, and it does not tell a missing number from 0.\<close>

lemma loss_share_negative:
  fixes pl r :: rat
  assumes "pl < 0" and "0 < r"
  shows "pl * r / 100 < 0"
proof -
  from assms have "pl * r < 0" by (rule mult_neg_pos)
  then show ?thesis by (simp add: divide_less_0_iff)
qed

lemma calculateAmounts_completes:
  "\<exists>e1. calculateAmounts account userData broker taxRate (Inr agentData) e = Inr e1"
  by (simp add: calculateAmounts_def Let_def split: option.splits)

lemma zero_filled_settlement:
  assumes r1: "calculateAmounts (Some acc) (Some u) broker taxRate (Inr agentData) e = Inr e1"
    and r2: "calculateAmounts (Some (zero_filled_account acc)) (Some (zero_filled_user u))
        (map_option zero_filled_broker broker) taxRate (Inr (zero_filled_agent agentData))
        (zero_filled_entry e) = Inr e2"
  shows "settlement e1 = settlement e2"
proof -
  note f1 = calculateAmounts_fields [OF r1]
  note f2 = calculateAmounts_fields [OF r2]
  have pl: "profitLoss e1 = profitLoss e2"
    using f1(1) f2(1)
    by (simp add: zero_filled_entry_def zero_filled_account_def or_zero_def)
  have clicker: "clickerAmount e1 = clickerAmount e2"
    using f1(2) f2(2) pl by (simp add: zero_filled_user_def or_zero_def)
  have holder: "accHolderAmount e1 = accHolderAmount e2"
    using f1(3) f2(3) pl by (simp add: zero_filled_agent_def or_zero_def split: option.splits)
  have brokerAmt: "brokerAmount e1 = brokerAmount e2"
    using f1(4) f2(4) pl
    by (cases broker)
      (simp_all add: zero_filled_broker_def zero_filled_account_def or_zero_def
        split: commission_type.splits)
  have tax: "taxableAmount e1 = taxableAmount e2"
    using f1(5) f2(5) pl by simp
  have referral: "referralAmount e1 = referralAmount e2"
    using f1(6) f2(6) pl
    by (simp add: zero_filled_account_def or_zero_def split: option.splits)
  have company: "companyAmount e1 = companyAmount e2"
    using f1(7) f2(7) pl clicker holder brokerAmt tax referral by simp
  from pl clicker holder brokerAmt tax referral company show ?thesis
    by (simp add: settlement_def)
qed

text \<open>
  C8. Once the agent has been looked up, \<open>calculateAmounts\<close> completes on every input,
  whatever numbers are present; it gives the same amounts when every missing number is
  written as \<open>0\<close>; and a negative profit/loss is not clamped: the clicker and tax amounts
  are the same products as for a profit, negative for a positive rate, as is the referral
  amount.
\<close>

theorem settlement_total:
  "(\<exists>e0. calculateAmounts account userData broker taxRate (Inr agentData) e = Inr e0)
   \<and> (calculateAmounts (Some acc) (Some u) broker taxRate (Inr agentData) e = Inr e1
       \<and> calculateAmounts (Some (zero_filled_account acc)) (Some (zero_filled_user u))
           (map_option zero_filled_broker broker) taxRate (Inr (zero_filled_agent agentData))
           (zero_filled_entry e) = Inr e2
       \<longrightarrow> settlement e1 = settlement e2)
   \<and> (calculateAmounts (Some acc) (Some u) broker taxRate (Inr agentData) e = Inr e1
       \<and> profitLoss e1 < 0 \<longrightarrow>
         clickerAmount e1 = profitLoss e1 * or_zero (percentage u) / 100
         \<and> taxableAmount e1 = profitLoss e1 * taxRate / 100
         \<and> (0 < or_zero (percentage u) \<longrightarrow> clickerAmount e1 < 0)
         \<and> (0 < taxRate \<longrightarrow> taxableAmount e1 < 0)
         \<and> (0 < or_zero (referralPercentage acc) \<longrightarrow> referralAmount e1 < 0))"
proof (intro conjI)
  show "\<exists>e0. calculateAmounts account userData broker taxRate (Inr agentData) e = Inr e0"
    by (rule calculateAmounts_completes)
next
  show "calculateAmounts (Some acc) (Some u) broker taxRate (Inr agentData) e = Inr e1
       \<and> calculateAmounts (Some (zero_filled_account acc)) (Some (zero_filled_user u))
           (map_option zero_filled_broker broker) taxRate (Inr (zero_filled_agent agentData))
           (zero_filled_entry e) = Inr e2
       \<longrightarrow> settlement e1 = settlement e2"
    using zero_filled_settlement by blast
next
  show "calculateAmounts (Some acc) (Some u) broker taxRate (Inr agentData) e = Inr e1
       \<and> profitLoss e1 < 0 \<longrightarrow>
         clickerAmount e1 = profitLoss e1 * or_zero (percentage u) / 100
         \<and> taxableAmount e1 = profitLoss e1 * taxRate / 100
         \<and> (0 < or_zero (percentage u) \<longrightarrow> clickerAmount e1 < 0)
         \<and> (0 < taxRate \<longrightarrow> taxableAmount e1 < 0)
         \<and> (0 < or_zero (referralPercentage acc) \<longrightarrow> referralAmount e1 < 0)"
  proof
    assume a: "calculateAmounts (Some acc) (Some u) broker taxRate (Inr agentData) e = Inr e1
       \<and> profitLoss e1 < 0"
    then have r: "calculateAmounts (Some acc) (Some u) broker taxRate (Inr agentData) e = Inr e1"
      and neg: "profitLoss e1 < 0" by simp_all
    note f = calculateAmounts_fields [OF r]
    have clicker: "0 < or_zero (percentage u) \<longrightarrow> clickerAmount e1 < 0"
      using loss_share_negative [OF neg, of "or_zero (percentage u)"] by (simp only: f(2)) blast
    have tax: "0 < taxRate \<longrightarrow> taxableAmount e1 < 0"
      using loss_share_negative [OF neg, of taxRate] by (simp only: f(5)) blast
    have referral: "0 < or_zero (referralPercentage acc) \<longrightarrow> referralAmount e1 < 0"
    proof (cases "referralPercentage acc")
      case None
      then show ?thesis by (simp add: or_zero_def)
    next
      case (Some rp)
      with f(6) loss_share_negative [OF neg, of rp] show ?thesis
        by (simp add: or_zero_def)
    qed
    from f(2) f(5) clicker tax referral
    show "clickerAmount e1 = profitLoss e1 * or_zero (percentage u) / 100
         \<and> taxableAmount e1 = profitLoss e1 * taxRate / 100
         \<and> (0 < or_zero (percentage u) \<longrightarrow> clickerAmount e1 < 0)
         \<and> (0 < taxRate \<longrightarrow> taxableAmount e1 < 0)
         \<and> (0 < or_zero (referralPercentage acc) \<longrightarrow> referralAmount e1 < 0)"
      by blast
  qed
qed

theorem settlement_total_witness:
  "calculateAmounts (Some sparse_account) (Some sparse_user) (Some sparse_broker) 10
     (Inr None) sparse_entry = Inr sparse_settled
   \<and> calculateAmounts (Some (zero_filled_account sparse_account))
     (Some (zero_filled_user sparse_user)) (map_option zero_filled_broker (Some sparse_broker))
     10 (Inr (zero_filled_agent None)) (zero_filled_entry sparse_entry)
     = Inr sparse_filled_settled
   \<and> settlement sparse_settled = settlement sparse_filled_settled
   \<and> settlement sparse_settled = (100, 0, 0, 0, 10, 0, 90)
   \<and> calculateAmounts (Some sample_account) (Some sample_user) (Some sample_broker) 10
     (Inr (Some sample_agent)) sample_loss_entry = Inr sample_loss_settled
   \<and> profitLoss sample_loss_settled < 0
   \<and> 0 < or_zero (percentage sample_user) \<and> (0 :: rat) < 10
   \<and> 0 < or_zero (referralPercentage sample_account)
   \<and> clickerAmount sample_loss_settled < 0 \<and> taxableAmount sample_loss_settled < 0
   \<and> referralAmount sample_loss_settled < 0
   \<and> settlement sample_loss_settled = (- 350, - 175, - 15, - 10, - 35, - (35 / 2), - (195 / 2))"
proof -
  have filled: "settlement sparse_settled = settlement sparse_filled_settled"
    using settlement_total [where acc = sparse_account and u = sparse_user
        and broker = "Some sparse_broker" and taxRate = 10 and agentData = None
        and e = sparse_entry and ?e1.0 = sparse_settled and ?e2.0 = sparse_filled_settled,
        THEN conjunct2, THEN conjunct1]
      sparse_calculateAmounts sparse_filled_calculateAmounts
    by simp
  have rates: "profitLoss sample_loss_settled < 0"
    "0 < or_zero (percentage sample_user)" "0 < or_zero (referralPercentage sample_account)"
    by (simp_all add: sample_defs)
  have loss: "clickerAmount sample_loss_settled < 0 \<and> taxableAmount sample_loss_settled < 0
      \<and> referralAmount sample_loss_settled < 0"
    using settlement_total [where acc = sample_account and u = sample_user
        and broker = "Some sample_broker" and taxRate = 10
        and agentData = "Some sample_agent" and e = sample_loss_entry
        and ?e1.0 = sample_loss_settled, THEN conjunct2, THEN conjunct2]
      sample_loss_calculateAmounts rates
    by simp
  have computed: "settlement sparse_settled = (100, 0, 0, 0, 10, 0, 90)"
    "settlement sample_loss_settled = (- 350, - 175, - 15, - 10, - 35, - (35 / 2), - (195 / 2))"
    by (simp_all add: settlement_def sparse_settled_def sample_loss_settled_def)
  from filled loss rates computed show ?thesis
    using sparse_calculateAmounts sparse_filled_calculateAmounts sample_loss_calculateAmounts
    by simp
qed

subsection \<open>The entry form of a new account\<close>

text \<open>The form that \<open>fetchAccountData\<close> prepares when the query finds no entry.\<close>

lemma fetchAccountData_no_entries:
  assumes "aid \<noteq> []" and "accountDoc db = Some accountData"
    and "entriesQuery aid puid db = []"
  shows "startingBalance (v_currentEntry (fetchAccountData aid puid today db v))
     = Some (if d_type accountData = Some Legal then or_zero (d_depositAmount accountData) else 0)"
  using assms by (simp add: fetchAccountData_def Let_def split: option.splits)

lemma fetchAccountData_v2_no_entries:
  assumes "aid \<noteq> []" and "accountDoc db = Some accountData"
    and "entriesQuery aid puid db = []"
  shows "startingBalance (v_currentEntry (fetchAccountData_v2 aid puid today db v))
     = Some (if d_type accountData = Some Legal then or_zero (d_depositAmount accountData) else 0)"
  using assms by (simp add: fetchAccountData_v2_def Let_def)

lemma fetchAccountData_v1_no_entries:
  assumes "aid \<noteq> []" and "accountDoc db = Some accountData"
    and "entriesQuery aid puid db = []"
  shows "startingBalance (v_currentEntry (fetchAccountData_v1 aid puid today db v))
     = Some (if d_type accountData = Some Legal then or_zero (d_depositAmount accountData) else 0)"
  using assms by (simp add: fetchAccountData_v1_def Let_def)

text \<open>
  C9. When the account has no entry yet, each revision of \<open>fetchAccountData\<close> sets the
  starting balance of the entry form to the deposit amount for a legal account (\<open>0\<close> when
  the deposit amount is missing) and to \<open>0\<close> for any other account.
\<close>

theorem deposit_default_starting_balance:
  assumes "aid \<noteq> []" and "accountDoc db = Some accountData"
    and "entriesQuery aid puid db = []"
  shows "startingBalance (v_currentEntry (fetchAccountData aid puid today db v))
       = Some (if d_type accountData = Some Legal
               then or_zero (d_depositAmount accountData) else 0)
     \<and> startingBalance (v_currentEntry (fetchAccountData_v2 aid puid today db v))
       = Some (if d_type accountData = Some Legal
               then or_zero (d_depositAmount accountData) else 0)
     \<and> startingBalance (v_currentEntry (fetchAccountData_v1 aid puid today db v))
       = Some (if d_type accountData = Some Legal
               then or_zero (d_depositAmount accountData) else 0)"
  using fetchAccountData_no_entries [OF assms] fetchAccountData_v2_no_entries [OF assms]
    fetchAccountData_v1_no_entries [OF assms]
  by blast

theorem deposit_default_starting_balance_witness:
  "''a1'' \<noteq> [] \<and> entriesQuery ''a1'' ''p1'' new_legal_db = []
   \<and> entriesQuery ''a1'' ''p1'' new_pph_db = []
   \<and> map_option d_depositAmount (accountDoc new_legal_db) = Some (Some 1000)
   \<and> startingBalance (v_currentEntry (fetchAccountData ''a1'' ''p1'' ''2024-05-01''
        new_legal_db (initial_View ''a1'' ''p1'' ''2024-05-01''))) = Some 1000
   \<and> startingBalance (v_currentEntry (fetchAccountData_v2 ''a1'' ''p1'' ''2024-05-01''
        new_legal_db (initial_View ''a1'' ''p1'' ''2024-05-01''))) = Some 1000
   \<and> startingBalance (v_currentEntry (fetchAccountData_v1 ''a1'' ''p1'' ''2024-05-01''
        new_legal_db (initial_View ''a1'' ''p1'' ''2024-05-01''))) = Some 1000
   \<and> startingBalance (v_currentEntry (fetchAccountData ''a1'' ''p1'' ''2024-05-01''
        new_pph_db (initial_View ''a1'' ''p1'' ''2024-05-01''))) = Some 0
   \<and> startingBalance (v_currentEntry (fetchAccountData_v2 ''a1'' ''p1'' ''2024-05-01''
        new_pph_db (initial_View ''a1'' ''p1'' ''2024-05-01''))) = Some 0
   \<and> startingBalance (v_currentEntry (fetchAccountData_v1 ''a1'' ''p1'' ''2024-05-01''
        new_pph_db (initial_View ''a1'' ''p1'' ''2024-05-01''))) = Some 0"
proof -
  have q: "entriesQuery ''a1'' ''p1'' new_legal_db = []"
    "entriesQuery ''a1'' ''p1'' new_pph_db = []"
    by (simp_all add: entriesQuery_def new_legal_db_def new_pph_db_def)
  have a: "''a1'' \<noteq> []" by simp
  have legal: "accountDoc new_legal_db = Some \<lparr>d_type = Some Legal, d_agentId = ''agent1'',
        d_brokerId = None, d_status = Some Unused, d_depositAmount = Some 1000,
        d_referralPercentage = None, d_promoAmount = None\<rparr>"
    by (simp add: new_legal_db_def)
  have pph: "accountDoc new_pph_db = Some \<lparr>d_type = Some Pph, d_agentId = ''agent1'',
        d_brokerId = None, d_status = Some Unused, d_depositAmount = None,
        d_referralPercentage = None, d_promoAmount = None\<rparr>"
    by (simp add: new_pph_db_def)
  from deposit_default_starting_balance [OF a legal q(1), of "''2024-05-01''"
      "initial_View ''a1'' ''p1'' ''2024-05-01''"]
    deposit_default_starting_balance [OF a pph q(2), of "''2024-05-01''"
      "initial_View ''a1'' ''p1'' ''2024-05-01''"]
    q legal
  show ?thesis by (simp add: or_zero_def)
qed

subsection \<open>The default tax rate\<close>

text \<open>Reads that yield no rate leave the tax rate where it was.\<close>

lemma fetchTaxRate_unreadable:
  "list_all unreadable taxDocs \<Longrightarrow> foldl (\<lambda>t d. fetchTaxRate d t) t taxDocs = t"
proof (induction taxDocs arbitrary: t)
  case Nil
  show ?case by simp
next
  case (Cons d ds)
  from Cons.prems have d: "unreadable d" and ds: "list_all unreadable ds" by simp_all
  from d have "fetchTaxRate d t = t"
    by (auto simp: unreadable_def fetchTaxRate_def split: sum.splits option.splits)
  with Cons.IH [OF ds] show ?case by simp
qed

lemma Dashboard_fetchTaxRate_unreadable:
  "list_all unreadable taxDocs \<Longrightarrow> foldl (\<lambda>s d. Dashboard_fetchTaxRate d s) s taxDocs = s"
proof (induction taxDocs arbitrary: s)
  case Nil
  show ?case by simp
next
  case (Cons d ds)
  from Cons.prems have d: "unreadable d" and ds: "list_all unreadable ds" by simp_all
  from d have "Dashboard_fetchTaxRate d s = s"
    by (auto simp: unreadable_def Dashboard_fetchTaxRate_def split: sum.splits option.splits)
  with Cons.IH [OF ds] show ?case by simp
qed

text \<open>
  C10. As long as no read of \<open>settings/taxRate\<close> has yielded a rate, because the document
  does not exist or the read was rejected, the tax rate is the initial \<open>10\<close>, on the entry
  screen and on the dashboard, and \<open>calculateAmounts\<close> completes with a tax of 10 percent
  of the profit/loss.
\<close>

theorem default_tax_rate:
  assumes "list_all unreadable taxDocs"
  shows "taxRate_after taxDocs = 10
    \<and> DashboardTax_after taxDocs = \<lparr>stats_taxRate = 10, newTaxRate = 10\<rparr>
    \<and> (\<exists>e1. calculateAmounts (Some acc) (Some u) broker (taxRate_after taxDocs)
           (Inr agentData) e = Inr e1
         \<and> taxableAmount e1 = profitLoss e1 * 10 / 100)"
proof -
  have t: "taxRate_after taxDocs = 10"
    using fetchTaxRate_unreadable [OF assms] by (simp add: taxRate_after_def initial_taxRate_def)
  have d: "DashboardTax_after taxDocs = \<lparr>stats_taxRate = 10, newTaxRate = 10\<rparr>"
    using Dashboard_fetchTaxRate_unreadable [OF assms]
    by (simp add: DashboardTax_after_def initial_DashboardTax_def)
  obtain e1 where r: "calculateAmounts (Some acc) (Some u) broker (taxRate_after taxDocs)
      (Inr agentData) e = Inr e1"
    using calculateAmounts_completes by blast
  from calculateAmounts_fields(5) [OF r] t
  have "taxableAmount e1 = profitLoss e1 * 10 / 100" by simp
  with r t d show ?thesis by blast
qed

theorem default_tax_rate_witness:
  "list_all unreadable [Inl FetchError, Inr None]
   \<and> taxRate_after [Inl FetchError, Inr None] = 10
   \<and> DashboardTax_after [Inl FetchError, Inr None] = \<lparr>stats_taxRate = 10, newTaxRate = 10\<rparr>
   \<and> calculateAmounts (Some sample_account) (Some sample_user) (Some sample_broker)
       (taxRate_after [Inl FetchError, Inr None]) (Inr (Some sample_agent)) sample_entry
       = Inr sample_settled
   \<and> taxableAmount sample_settled = 500 * 10 / 100"
proof -
  have u: "list_all unreadable [Inl FetchError, Inr None]"
    by (simp add: unreadable_def)
  from default_tax_rate [OF u, of sample_account sample_user "Some sample_broker"
      "Some sample_agent" sample_entry]
  have t: "taxRate_after [Inl FetchError, Inr None] = 10"
    and d: "DashboardTax_after [Inl FetchError, Inr None]
      = \<lparr>stats_taxRate = 10, newTaxRate = 10\<rparr>"
    by simp_all
  from u t d sample_calculateAmounts show ?thesis
    by (simp add: sample_settled_def)
qed

subsection \<open>The tax of an edited entry\<close>

text \<open>What the second editing effect of the first document of part_002 writes as tax.\<close>

lemma calculateEditingAmounts_v2_second_tax:
  assumes "calculateEditingAmounts_v2_second (Some acc) (Some u) agent (Some e)
     = Inr (Some e')"
  shows "taxableAmount e' = profitLoss e' * 10 / 100"
  using assms
  by (cases agent) (auto simp: calculateEditingAmounts_v2_second_def Let_def)

lemma calculateEditingAmounts_v2_tax:
  assumes "calculateEditingAmounts_v2 (Some acc) (Some u) taxRate agent (Some e)
     = Inr (Some e')"
  shows "taxableAmount e' = profitLoss e' * taxRate / 100"
  using assms
  by (cases agent) (auto simp: calculateEditingAmounts_v2_def Let_def)

lemma calculateEditingAmounts_tax:
  assumes "calculateEditingAmounts (Some acc) (Some u) broker taxRate agent (Some e)
     = Inr (Some e')"
  shows "taxableAmount e' = profitLoss e' * taxRate / 100"
proof -
  from calculateEditingAmounts_agent [OF assms] obtain ad where "agent = Inr ad" ..
  with assms calculateEditingAmounts_fields(5) show ?thesis by blast
qed

text \<open>
  C4 holds in \<open>calculateAmounts\<close> and in the \<open>calculateEditingAmounts\<close> that read the tax
  rate. It fails in the first document of part_002, where the second editing effect
  computes the tax at a constant 10 percent: with the tax rate set to 20, editing the sample
  entry (profit/loss 650) leaves a tax of 65 where 20 percent is 130, and the company
  amount is the residual of that tax.
\<close>

theorem editing_tax_ignores_rate:
  "calculateEditingAmounts_v2 (Some sample_account) (Some sample_user) 20
     (Inr (Some sample_agent)) (Some sample_entry)
     = Inr (Some (sample_settled_v2\<lparr>companyAmount := 155 / 2, taxableAmount := 130\<rparr>))
   \<and> calculateEditingAmounts_v2_second (Some sample_account) (Some sample_user)
     (Inr (Some sample_agent)) (Some sample_entry) = Inr (Some sample_settled_v2)
   \<and> editing_effects_v2 (Some sample_account) (Some sample_user) 20
     (Inr (Some sample_agent)) (Some sample_entry) = Some sample_settled_v2
   \<and> profitLoss sample_settled_v2 = 650
   \<and> taxableAmount sample_settled_v2 = 65
   \<and> taxableAmount sample_settled_v2 \<noteq> profitLoss sample_settled_v2 * 20 / 100"
proof -
  have first: "calculateEditingAmounts_v2 (Some sample_account) (Some sample_user) 20
     (Inr (Some sample_agent)) (Some sample_entry)
     = Inr (Some (sample_settled_v2\<lparr>companyAmount := 155 / 2, taxableAmount := 130\<rparr>))"
    by (simp add: calculateEditingAmounts_v2_def Let_def sample_defs)
  have second: "calculateEditingAmounts_v2_second (Some sample_account) (Some sample_user)
     (Inr (Some sample_agent)) (Some sample_entry) = Inr (Some sample_settled_v2)"
    by (simp add: calculateEditingAmounts_v2_second_def Let_def sample_defs)
  have both: "editing_effects_v2 (Some sample_account) (Some sample_user) 20
     (Inr (Some sample_agent)) (Some sample_entry) = Some sample_settled_v2"
    unfolding editing_effects_v2_def first second
    by (simp add: sample_settled_v2_def)
  have amounts: "profitLoss sample_settled_v2 = 650" "taxableAmount sample_settled_v2 = 65"
    by (simp_all add: sample_settled_v2_def)
  from first second both amounts show ?thesis by simp
qed

subsection \<open>The status of the account\<close>

text \<open>
  The derivation on loading: an account not set to \<open>inactive\<close> is \<open>unused\<close> without
  entries and \<open>active\<close> with at least one; an account set to \<open>inactive\<close> stays so only
  while it has no entries.
\<close>

lemma derived_status_not_inactive:
  "stored \<noteq> Some Inactive \<Longrightarrow> derived_status stored n = (if n = 0 then Unused else Active)"
  by (cases stored) (auto simp: derived_status_def Let_def)

lemma derived_status_inactive:
  "derived_status (Some Inactive) n = (if n = 0 then Inactive else Active)"
  by (simp add: derived_status_def)

lemma fetchAccountData_status:
  assumes "aid \<noteq> []" and "accountDoc db = Some accountData"
  shows "map_option status (v_account (fetchAccountData aid puid today db v))
     = Some (derived_status (d_status accountData) (length (entriesQuery aid puid db)))"
  using assms by (simp add: fetchAccountData_def Let_def split: option.splits)

lemma fetchAccountData_v2_status:
  assumes "aid \<noteq> []" and "accountDoc db = Some accountData"
  shows "map_option status (v_account (fetchAccountData_v2 aid puid today db v))
     = Some (derived_status (d_status accountData) (length (entriesQuery aid puid db)))"
  using assms by (simp add: fetchAccountData_v2_def Let_def split: option.splits)

text \<open>
  Deleting the last entry from a screen that was loaded while the entry existed: the
  status in the component state is \<open>active\<close>, whatever is stored, so \<open>unused\<close> is stored
  and the reload derives \<open>unused\<close>.
\<close>

lemma entriesQuery_entryDocs:
  "entriesQuery aid puid (db\<lparr>entryDocs := es, accountDoc := d\<rparr>)
     = entriesQuery aid puid (db\<lparr>entryDocs := es\<rparr>)"
  by (simp add: entriesQuery_def)

lemma handleDeleteEntry_v2_last:
  assumes "aid \<noteq> []" and "accountDoc db = Some accountData"
    and "entriesQuery aid puid db \<noteq> []"
    and "entriesQuery aid puid
           (db\<lparr>entryDocs := filter (\<lambda>e. entry_id e \<noteq> Some entryId) (entryDocs db)\<rparr>) = []"
  shows "map_option d_status (accountDoc (fst (handleDeleteEntry_v2 True aid puid today entryId
           (db, fetchAccountData_v2 aid puid today db v)))) = Some (Some Unused)"
    and "map_option status (v_account (snd (handleDeleteEntry_v2 True aid puid today entryId
           (db, fetchAccountData_v2 aid puid today db v)))) = Some Unused"
proof -
  let ?db2 = "db\<lparr>entryDocs := filter (\<lambda>e. entry_id e \<noteq> Some entryId) (entryDocs db),
    accountDoc := Some (accountData\<lparr>d_status := Some Unused\<rparr>)\<rparr>"
  let ?v = "fetchAccountData_v2 aid puid today db v"
  from fetchAccountData_v2_status [OF assms(1,2), of puid today v] assms(3)
  have "map_option status (v_account ?v) = Some Active"
    by (simp add: derived_status_def)
  then obtain a where a: "v_account ?v = Some a" "status a = Active" by auto
  have step: "handleDeleteEntry_v2 True aid puid today entryId (db, ?v)
      = (?db2, fetchAccountData_v2 aid puid today ?db2 ?v)"
    using assms(2,4) a by (simp add: handleDeleteEntry_v2_def Let_def)
  have doc: "accountDoc ?db2 = Some (accountData\<lparr>d_status := Some Unused\<rparr>)" by simp
  have none: "entriesQuery aid puid ?db2 = []"
    using assms(4) by (simp add: entriesQuery_entryDocs)
  show "map_option d_status (accountDoc (fst (handleDeleteEntry_v2 True aid puid today entryId
           (db, ?v)))) = Some (Some Unused)"
    by (simp add: step)
  show "map_option status (v_account (snd (handleDeleteEntry_v2 True aid puid today entryId
           (db, ?v)))) = Some Unused"
    using fetchAccountData_v2_status [OF assms(1) doc, of puid today ?v] none
    by (simp add: step derived_status_def)
qed

lemma handleDeleteEntry_last:
  assumes "aid \<noteq> []" and "accountDoc db = Some accountData"
    and "entriesQuery aid puid db \<noteq> []"
    and "entriesQuery aid puid
           (db\<lparr>entryDocs := filter (\<lambda>e. entry_id e \<noteq> Some entryId) (entryDocs db)\<rparr>) = []"
  shows "map_option d_status (accountDoc (fst (handleDeleteEntry True aid puid today entryId
           (db, fetchAccountData aid puid today db v)))) = Some (Some Unused)"
    and "map_option status (v_account (snd (handleDeleteEntry True aid puid today entryId
           (db, fetchAccountData aid puid today db v)))) = Some Unused"
proof -
  let ?db2 = "db\<lparr>entryDocs := filter (\<lambda>e. entry_id e \<noteq> Some entryId) (entryDocs db),
    accountDoc := Some (accountData\<lparr>d_status := Some Unused\<rparr>)\<rparr>"
  let ?v = "fetchAccountData aid puid today db v"
  from fetchAccountData_status [OF assms(1,2), of puid today v] assms(3)
  have "map_option status (v_account ?v) = Some Active"
    by (simp add: derived_status_def)
  then obtain a where a: "v_account ?v = Some a" "status a = Active" by auto
  have step: "handleDeleteEntry True aid puid today entryId (db, ?v)
      = (?db2, fetchAccountData aid puid today ?db2 ?v)"
    using assms(2,4) a by (simp add: handleDeleteEntry_def Let_def)
  have doc: "accountDoc ?db2 = Some (accountData\<lparr>d_status := Some Unused\<rparr>)" by simp
  have none: "entriesQuery aid puid ?db2 = []"
    using assms(4) by (simp add: entriesQuery_entryDocs)
  show "map_option d_status (accountDoc (fst (handleDeleteEntry True aid puid today entryId
           (db, ?v)))) = Some (Some Unused)"
    by (simp add: step)
  show "map_option status (v_account (snd (handleDeleteEntry True aid puid today entryId
           (db, ?v)))) = Some Unused"
    using fetchAccountData_status [OF assms(1) doc, of puid today ?v] none
    by (simp add: step derived_status_def)
qed

text \<open>
  C7 is what the comments of the source say, and the derivation on loading does it for an
  account not set to \<open>inactive\<close>. The deletion does not: the account below is stored as
  \<open>inactive\<close> and has one entry; the screen loads it as \<open>active\<close>, and deleting the entry
  stores \<open>unused\<close> over \<open>inactive\<close>, in both documents of part_002.
\<close>

theorem delete_last_entry_overwrites_inactive:
  "map_option d_status (accountDoc inactive_db) = Some (Some Inactive)
   \<and> map_option status (v_account (fetchAccountData_v2 ''a1'' ''p1'' ''2024-05-01''
        inactive_db (initial_View ''a1'' ''p1'' ''2024-05-01''))) = Some Active
   \<and> map_option d_status (accountDoc (fst (handleDeleteEntry_v2 True ''a1'' ''p1''
        ''2024-05-01'' ''e1''
        (inactive_db, fetchAccountData_v2 ''a1'' ''p1'' ''2024-05-01''
           inactive_db (initial_View ''a1'' ''p1'' ''2024-05-01''))))) = Some (Some Unused)
   \<and> map_option status (v_account (snd (handleDeleteEntry_v2 True ''a1'' ''p1''
        ''2024-05-01'' ''e1''
        (inactive_db, fetchAccountData_v2 ''a1'' ''p1'' ''2024-05-01''
           inactive_db (initial_View ''a1'' ''p1'' ''2024-05-01''))))) = Some Unused
   \<and> map_option status (v_account (fetchAccountData ''a1'' ''p1'' ''2024-05-01''
        inactive_db (initial_View ''a1'' ''p1'' ''2024-05-01''))) = Some Active
   \<and> map_option d_status (accountDoc (fst (handleDeleteEntry True ''a1'' ''p1''
        ''2024-05-01'' ''e1''
        (inactive_db, fetchAccountData ''a1'' ''p1'' ''2024-05-01''
           inactive_db (initial_View ''a1'' ''p1'' ''2024-05-01''))))) = Some (Some Unused)
   \<and> map_option status (v_account (snd (handleDeleteEntry True ''a1'' ''p1''
        ''2024-05-01'' ''e1''
        (inactive_db, fetchAccountData ''a1'' ''p1'' ''2024-05-01''
           inactive_db (initial_View ''a1'' ''p1'' ''2024-05-01''))))) = Some Unused"
proof -
  have a: "''a1'' \<noteq> []" by simp
  have doc: "accountDoc inactive_db = Some \<lparr>d_type = Some Legal, d_agentId = ''agent1'',
        d_brokerId = None, d_status = Some Inactive, d_depositAmount = Some 1000,
        d_referralPercentage = None, d_promoAmount = None\<rparr>"
    by (simp add: inactive_db_def)
  have q: "entriesQuery ''a1'' ''p1'' inactive_db = [sample_entry\<lparr>entry_id := Some ''e1''\<rparr>]"
    by (simp add: entriesQuery_def inactive_db_def sample_entry_def initial_currentEntry_def)
  then have some: "entriesQuery ''a1'' ''p1'' inactive_db \<noteq> []" by simp
  have none: "entriesQuery ''a1'' ''p1''
      (inactive_db\<lparr>entryDocs := filter (\<lambda>e. entry_id e \<noteq> Some ''e1'')
         (entryDocs inactive_db)\<rparr>) = []"
    by (simp add: entriesQuery_def inactive_db_def)
  have stored: "map_option d_status (accountDoc inactive_db) = Some (Some Inactive)"
    by (simp add: doc)
  have loaded_v2: "map_option status (v_account (fetchAccountData_v2 ''a1'' ''p1''
      ''2024-05-01'' inactive_db (initial_View ''a1'' ''p1'' ''2024-05-01''))) = Some Active"
    using fetchAccountData_v2_status [OF a doc, of "''p1''"] q
    by (simp add: derived_status_def)
  have loaded: "map_option status (v_account (fetchAccountData ''a1'' ''p1''
      ''2024-05-01'' inactive_db (initial_View ''a1'' ''p1'' ''2024-05-01''))) = Some Active"
    using fetchAccountData_status [OF a doc, of "''p1''"] q
    by (simp add: derived_status_def)
  from stored loaded_v2 loaded
    handleDeleteEntry_v2_last [OF a doc some none]
    handleDeleteEntry_last [OF a doc some none]
  show ?thesis by blast
qed

end
